theory Spec2Isabelle
  imports Complex_Main
begin

section \<open>Floating-point columns\<close>

text \<open>
  The tables of the program are pandas data frames whose numeric columns hold IEEE doubles.
  A double is modelled by its real value or by one of the three special values; rounding
  and the sign of zero are not modelled. \<open>NaN\<close> is also what pandas stores for a missing
  value. The operations below follow the IEEE rules for the special values, as numpy
  applies them (a division by zero yields an infinity or \<open>NaN\<close> and raises nothing).
\<close>

datatype pyfloat = Fin real | PInf | NInf | NaN

fun fneg :: "pyfloat \<Rightarrow> pyfloat" where
  "fneg (Fin a) = Fin (- a)"
| "fneg PInf = NInf"
| "fneg NInf = PInf"
| "fneg NaN = NaN"

fun fadd :: "pyfloat \<Rightarrow> pyfloat \<Rightarrow> pyfloat" where
  "fadd NaN _ = NaN"
| "fadd _ NaN = NaN"
| "fadd (Fin a) (Fin b) = Fin (a + b)"
| "fadd PInf NInf = NaN"
| "fadd NInf PInf = NaN"
| "fadd PInf _ = PInf"
| "fadd _ PInf = PInf"
| "fadd NInf _ = NInf"
| "fadd _ NInf = NInf"

definition fsub :: "pyfloat \<Rightarrow> pyfloat \<Rightarrow> pyfloat" where
  "fsub a b = fadd a (fneg b)"

fun fabs :: "pyfloat \<Rightarrow> pyfloat" where
  "fabs (Fin a) = Fin \<bar>a\<bar>"
| "fabs PInf = PInf"
| "fabs NInf = PInf"
| "fabs NaN = NaN"

text \<open>The sign of a value: \<open>Some 1\<close>, \<open>Some 0\<close>, \<open>Some (-1)\<close>, and \<open>None\<close> for \<open>NaN\<close>.\<close>

fun fsign :: "pyfloat \<Rightarrow> int option" where
  "fsign (Fin a) = Some (if a < 0 then - 1 else if a = 0 then 0 else 1)"
| "fsign PInf = Some 1"
| "fsign NInf = Some (- 1)"
| "fsign NaN = None"

fun fmul :: "pyfloat \<Rightarrow> pyfloat \<Rightarrow> pyfloat" where
  "fmul (Fin a) (Fin b) = Fin (a * b)"
| "fmul a b =
     (case (fsign a, fsign b) of
        (Some s, Some t) \<Rightarrow> (if s * t = 0 then NaN else if s * t < 0 then NInf else PInf)
      | _ \<Rightarrow> NaN)"

fun fdiv :: "pyfloat \<Rightarrow> pyfloat \<Rightarrow> pyfloat" where
  "fdiv NaN _ = NaN"
| "fdiv _ NaN = NaN"
| "fdiv (Fin a) (Fin b) =
     (if b \<noteq> 0 then Fin (a / b)
      else if a > 0 then PInf else if a < 0 then NInf else NaN)"
| "fdiv (Fin a) _ = Fin 0"
| "fdiv PInf (Fin b) = (if b < 0 then NInf else PInf)"
| "fdiv NInf (Fin b) = (if b < 0 then PInf else NInf)"
| "fdiv _ _ = NaN"

fun fsqrt :: "pyfloat \<Rightarrow> pyfloat" where
  "fsqrt (Fin a) = (if a < 0 then NaN else Fin (sqrt a))"
| "fsqrt PInf = PInf"
| "fsqrt _ = NaN"

text \<open>Comparisons: every comparison with \<open>NaN\<close> is false.\<close>

fun flt :: "pyfloat \<Rightarrow> pyfloat \<Rightarrow> bool" where
  "flt (Fin a) (Fin b) = (a < b)"
| "flt NInf (Fin b) = True"
| "flt NInf PInf = True"
| "flt (Fin a) PInf = True"
| "flt _ _ = False"

fun fle :: "pyfloat \<Rightarrow> pyfloat \<Rightarrow> bool" where
  "fle NaN _ = False"
| "fle _ NaN = False"
| "fle (Fin a) (Fin b) = (a \<le> b)"
| "fle NInf _ = True"
| "fle _ PInf = True"
| "fle _ _ = False"

definition fgt :: "pyfloat \<Rightarrow> pyfloat \<Rightarrow> bool" where
  "fgt a b = flt b a"

definition fge :: "pyfloat \<Rightarrow> pyfloat \<Rightarrow> bool" where
  "fge a b = fle b a"

text \<open>\<open>Series.shift()\<close> and \<open>Series.diff()\<close>: the first entry has no predecessor.\<close>

definition shift :: "'a list \<Rightarrow> 'a option list" where
  "shift xs = take (length xs) (None # map Some xs)"

definition diff :: "pyfloat list \<Rightarrow> pyfloat list" where
  "diff xs = map2 (\<lambda>x p. case p of None \<Rightarrow> NaN | Some y \<Rightarrow> fsub x y) xs (shift xs)"

text \<open>\<open>Series.min()\<close> skips \<open>NaN\<close> and is \<open>NaN\<close> when nothing is left.\<close>

definition fmin :: "pyfloat \<Rightarrow> pyfloat \<Rightarrow> pyfloat" where
  "fmin a b = (if flt b a then b else a)"

definition series_min :: "pyfloat list \<Rightarrow> pyfloat" where
  "series_min xs =
     (case filter (\<lambda>x. x \<noteq> NaN) xs of [] \<Rightarrow> NaN | y # ys \<Rightarrow> foldl fmin y ys)"

section \<open>Errors\<close>

text \<open>What the program raises, as values.\<close>

datatype error =
    KeyError string
  | OutOfBoundsDatetime
  | ValueError_missing_column
  | ValueError_no_timings string
  | ValueError_no_valid_data string pyfloat pyfloat
  | ValueError_all_nan

section \<open>The sample table of \<open>filtered_data.py\<close>\<close>

text \<open>
  One row of the table. The raw record supplier provides \<open>timestamp\<close>, \<open>type\<close> and the
  two pupil diameters; \<open>is_valid\<close> and \<open>relative_timestamp\<close> are added by
  \<open>FilteredData\<close>. A data frame is its rows, in index order, and the names of its columns
  (after the prefix \<open>data.\<close> is stripped): a row's value in a column the frame does not
  have is never read. The display column \<open>timestamp_readable\<close> is a column name only, its
  strings are not modelled. The passes and the extractor are modelled on tables that have
  the columns of the raw record supplier; the recomputation itself is modelled with what
  it raises when the \<open>timestamp\<close> column is not there.
\<close>

record sample =
  timestamp :: pyfloat
  event_type :: string
  eyeleft_pupildiameter :: pyfloat
  eyeright_pupildiameter :: pyfloat
  is_valid :: bool
  relative_timestamp :: pyfloat

record 'r dataframe =
  rows :: "'r list"
  columns :: "string list"

record filtered_data =
  self_data :: "sample dataframe"
  self_start_timestamp :: "pyfloat option"
  self_user_id :: "int option"

text \<open>\<open>df.loc[mask, 'is_valid'] = False\<close>\<close>

definition loc_set_invalid :: "bool list \<Rightarrow> 'a sample_scheme list \<Rightarrow> 'a sample_scheme list" where
  "loc_set_invalid msk rs = map2 (\<lambda>m r. if m then r\<lparr>is_valid := False\<rparr> else r) msk rs"

text \<open>\<open>FilteredData._reset_calculated_fields\<close>, with \<open>_calculated_fields = ['relative_timestamp']\<close>.\<close>

definition reset_calculated_fields :: "sample dataframe \<Rightarrow> sample dataframe" where
  "reset_calculated_fields df =
     df\<lparr>rows := map (\<lambda>r. r\<lparr>relative_timestamp := NaN\<rparr>) (rows df),
        columns := List.insert ''relative_timestamp'' (columns df)\<rparr>"

text \<open>
  \<open>FilteredData._prepare_data\<close>. Its first step gives the table an \<open>is_valid\<close> column,
  true on every row, when it has none.
\<close>

definition ensure_is_valid :: "sample dataframe \<Rightarrow> sample dataframe" where
  "ensure_is_valid df =
     (if ''is_valid'' \<notin> set (columns df)
      then df\<lparr>rows := map (\<lambda>r. r\<lparr>is_valid := True\<rparr>) (rows df),
              columns := columns df @ [''is_valid'']\<rparr>
      else df)"

definition add_column :: "string \<Rightarrow> string list \<Rightarrow> string list" where
  "add_column c cols = (if c \<in> set cols then cols else cols @ [c])"

definition prepare_data :: "filtered_data \<Rightarrow> filtered_data" where
  "prepare_data self =
     (let df1 = ensure_is_valid (self_data self);
          df2 = reset_calculated_fields df1;
          valid_data = filter is_valid (rows df2);
          cols = add_column ''timestamp_readable'' (columns df2)
      in if valid_data \<noteq> [] then
           let start = series_min (map timestamp valid_data)
           in self\<lparr>self_data :=
                      df2\<lparr>rows := map (\<lambda>r. if is_valid r
                                            then r\<lparr>relative_timestamp := fsub (timestamp r) start\<rparr>
                                            else r) (rows df2),
                          columns := cols\<rparr>,
                    self_start_timestamp := Some start\<rparr>
         else self\<lparr>self_data := df2\<lparr>columns := cols\<rparr>, self_start_timestamp := None\<rparr>)"

text \<open>
  What \<open>_prepare_data\<close> raises, if anything. The statements that read the \<open>timestamp\<close>
  column (the minimum over the valid rows, and the conversion for \<open>timestamp_readable\<close>
  when the table does not have that column yet) fail with a key error when the column is
  not there. \<open>pd.to_datetime(..., unit='s')\<close> fails on a timestamp outside the range of
  nanosecond datetimes; a missing timestamp converts to a missing datetime.
\<close>

definition to_datetime_ok :: "pyfloat \<Rightarrow> bool" where
  "to_datetime_ok t =
     (case t of NaN \<Rightarrow> True
              | Fin x \<Rightarrow> - (2 ^ 63) < x * 10 ^ 9 \<and> x * 10 ^ 9 < 2 ^ 63
              | _ \<Rightarrow> False)"

definition prepare_data_error :: "filtered_data \<Rightarrow> error option" where
  "prepare_data_error self =
     (let df2 = reset_calculated_fields (ensure_is_valid (self_data self));
          valid_data = filter is_valid (rows df2)
      in if valid_data \<noteq> [] \<and> ''timestamp'' \<notin> set (columns df2)
         then Some (KeyError ''timestamp'')
         else if ''timestamp_readable'' \<notin> set (columns df2)
         then (if ''timestamp'' \<notin> set (columns df2) then Some (KeyError ''timestamp'')
               else if \<not> list_all to_datetime_ok (map timestamp (rows df2))
               then Some OutOfBoundsDatetime else None)
         else None)"

text \<open>
  \<open>FilteredData.__init__\<close> for a given raw table, \<open>get_data\<close> and \<open>set_data\<close>.
  \<open>FilteredData\<close> and \<open>set_data\<close> give the object that a call leaves when it returns;
  \<open>FilteredData_init\<close> and \<open>set_data_call\<close> are the calls with what they raise.
\<close>

definition FilteredData :: "sample dataframe \<Rightarrow> int option \<Rightarrow> filtered_data" where
  "FilteredData raw_df uid =
     (prepare_data \<lparr>self_data = raw_df, self_start_timestamp = None, self_user_id = None\<rparr>)
       \<lparr>self_user_id := uid\<rparr>"

definition get_data :: "filtered_data \<Rightarrow> sample dataframe" where
  "get_data self = self_data self"

definition set_data :: "filtered_data \<Rightarrow> sample dataframe \<Rightarrow> filtered_data" where
  "set_data self new_data = prepare_data (self\<lparr>self_data := new_data\<rparr>)"

definition get_start_timestamp :: "filtered_data \<Rightarrow> pyfloat option" where
  "get_start_timestamp self = self_start_timestamp self"

definition FilteredData_init :: "sample dataframe \<Rightarrow> int option \<Rightarrow> error + filtered_data" where
  "FilteredData_init raw_df uid =
     (case prepare_data_error \<lparr>self_data = raw_df, self_start_timestamp = None, self_user_id = None\<rparr> of
        Some e \<Rightarrow> Inl e
      | None \<Rightarrow> Inr (FilteredData raw_df uid))"

definition set_data_call :: "filtered_data \<Rightarrow> sample dataframe \<Rightarrow> error + filtered_data" where
  "set_data_call self new_data =
     (case prepare_data_error (self\<lparr>self_data := new_data\<rparr>) of
        Some e \<Rightarrow> Inl e
      | None \<Rightarrow> Inr (set_data self new_data))"

section \<open>The filter passes of \<open>raw_data_filter.py\<close>\<close>

text \<open>
  Every pass reads the table with \<open>get_data\<close>, computes a boolean mask over the rows,
  clears \<open>is_valid\<close> where the mask holds and hands the table back through \<open>set_data\<close>.
  Each mask is a definition of its own, named after the pass.
\<close>

definition DEFAULT_TOLERANCE :: pyfloat where
  "DEFAULT_TOLERANCE = Fin (2 / 100)"

definition mask_only_gaze :: "'a sample_scheme list \<Rightarrow> bool list" where
  "mask_only_gaze rs = map (\<lambda>t. t \<noteq> ''gaze'') (map event_type rs)"

definition filter_only_gaze :: "filtered_data \<Rightarrow> filtered_data" where
  "filter_only_gaze fd =
     (let df = get_data fd
      in set_data fd (df\<lparr>rows := loc_set_invalid (mask_only_gaze (rows df)) (rows df)\<rparr>))"

definition mask_invalid_pupils :: "pyfloat \<Rightarrow> pyfloat \<Rightarrow> 'a sample_scheme list \<Rightarrow> bool list" where
  "mask_invalid_pupils min_size max_size rs =
     map2 (\<lambda>l r. flt l min_size \<or> fgt l max_size \<or> flt r min_size \<or> fgt r max_size)
       (map eyeleft_pupildiameter rs) (map eyeright_pupildiameter rs)"

definition filter_invalid_pupils :: "filtered_data \<Rightarrow> pyfloat \<Rightarrow> pyfloat \<Rightarrow> filtered_data" where
  "filter_invalid_pupils fd min_size max_size =
     (let df = get_data fd
      in set_data fd
           (df\<lparr>rows := loc_set_invalid (mask_invalid_pupils min_size max_size (rows df)) (rows df)\<rparr>))"

definition mask_missing_data :: "'a sample_scheme list \<Rightarrow> bool list" where
  "mask_missing_data rs =
     map2 (\<lambda>(l, r) t. l = NaN \<or> r = NaN \<or> t = NaN)
       (zip (map eyeleft_pupildiameter rs) (map eyeright_pupildiameter rs)) (map timestamp rs)"

definition filter_missing_data :: "filtered_data \<Rightarrow> filtered_data" where
  "filter_missing_data fd =
     (let df = get_data fd
      in set_data fd (df\<lparr>rows := loc_set_invalid (mask_missing_data (rows df)) (rows df)\<rparr>))"

text \<open>
  \<open>filter_by_timestamp\<close>: \<open>min_timestamp\<close> is the numeric floor (a date string is turned
  into one by the standard library before the mask is computed) and \<open>current_time\<close> is
  the reading of the clock taken by the pass.
\<close>

definition mask_by_timestamp :: "pyfloat \<Rightarrow> pyfloat \<Rightarrow> 'a sample_scheme list \<Rightarrow> bool list" where
  "mask_by_timestamp min_timestamp current_time rs =
     map (\<lambda>t. flt t min_timestamp \<or> fgt t current_time) (map timestamp rs)"

definition filter_by_timestamp :: "filtered_data \<Rightarrow> pyfloat \<Rightarrow> pyfloat \<Rightarrow> filtered_data" where
  "filter_by_timestamp fd min_timestamp current_time =
     (let df = get_data fd
      in set_data fd
           (df\<lparr>rows := loc_set_invalid (mask_by_timestamp min_timestamp current_time (rows df)) (rows df)\<rparr>))"

definition mask_unrealistic_event_spacing :: "pyfloat \<Rightarrow> 'a sample_scheme list \<Rightarrow> bool list" where
  "mask_unrealistic_event_spacing min_interval rs =
     map (\<lambda>d. flt d min_interval) (diff (map timestamp rs))"

definition filter_unrealistic_event_spacing :: "filtered_data \<Rightarrow> pyfloat \<Rightarrow> filtered_data" where
  "filter_unrealistic_event_spacing fd min_interval =
     (let df = get_data fd
      in set_data fd
           (df\<lparr>rows := loc_set_invalid (mask_unrealistic_event_spacing min_interval (rows df)) (rows df)\<rparr>))"

text \<open>
  \<open>filter_constant_pupil\<close>: \<open>(stable != stable.shift()).cumsum()\<close> numbers the runs of equal
  \<open>stable\<close> values, and \<open>transform('size')\<close> gives every row the size of its group.
\<close>

fun cumsum_from :: "nat \<Rightarrow> bool list \<Rightarrow> nat list" where
  "cumsum_from acc [] = []"
| "cumsum_from acc (b # bs) = (acc + (if b then 1 else 0)) # cumsum_from (acc + (if b then 1 else 0)) bs"

definition cumsum :: "bool list \<Rightarrow> nat list" where
  "cumsum bs = cumsum_from 0 bs"

definition transform_size :: "nat list \<Rightarrow> nat list" where
  "transform_size ks = map (\<lambda>k. length (filter (\<lambda>j. j = k) ks)) ks"

definition mask_constant_pupil :: "int \<Rightarrow> pyfloat option \<Rightarrow> 'a sample_scheme list \<Rightarrow> bool list" where
  "mask_constant_pupil max_static_steps tolerance rs =
     (let tol = (case tolerance of None \<Rightarrow> DEFAULT_TOLERANCE | Some t \<Rightarrow> t);
          left_diff = map fabs (diff (map eyeleft_pupildiameter rs));
          right_diff = map fabs (diff (map eyeright_pupildiameter rs));
          stable_left = map (\<lambda>d. flt d tol) left_diff;
          stable_right = map (\<lambda>d. flt d tol) right_diff;
          stable = map2 (\<and>) stable_left stable_right;
          stable_streak =
            transform_size (cumsum (map2 (\<lambda>s p. Some s \<noteq> p) stable (shift stable)))
      in map2 (\<lambda>s k. s \<and> int k \<ge> max_static_steps) stable stable_streak)"

definition filter_constant_pupil :: "filtered_data \<Rightarrow> int \<Rightarrow> pyfloat option \<Rightarrow> filtered_data" where
  "filter_constant_pupil fd max_static_steps tolerance =
     (let df = get_data fd
      in set_data fd
           (df\<lparr>rows := loc_set_invalid (mask_constant_pupil max_static_steps tolerance (rows df)) (rows df)\<rparr>))"

definition mask_async_pupil_size :: "pyfloat option \<Rightarrow> 'a sample_scheme list \<Rightarrow> bool list" where
  "mask_async_pupil_size tolerance rs =
     (let tol = (case tolerance of None \<Rightarrow> DEFAULT_TOLERANCE | Some t \<Rightarrow> t);
          left_diff = diff (map eyeleft_pupildiameter rs);
          right_diff = diff (map eyeright_pupildiameter rs)
      in map2 (\<lambda>l r. flt (fmul l r) (Fin 0) \<and> fgt (fabs l) tol \<and> fgt (fabs r) tol)
           left_diff right_diff)"

definition filter_async_pupil_size :: "filtered_data \<Rightarrow> pyfloat option \<Rightarrow> filtered_data" where
  "filter_async_pupil_size fd tolerance =
     (let df = get_data fd
      in set_data fd
           (df\<lparr>rows := loc_set_invalid (mask_async_pupil_size tolerance (rows df)) (rows df)\<rparr>))"

text \<open>A pass of the chain with its parameters, and a run of passes in the caller's order.\<close>

datatype filter_pass =
    OnlyGaze
  | InvalidPupils pyfloat pyfloat
  | MissingData
  | ByTimestamp pyfloat pyfloat
  | UnrealisticEventSpacing pyfloat
  | ConstantPupil int "pyfloat option"
  | AsyncPupilSize "pyfloat option"

fun apply_pass :: "filter_pass \<Rightarrow> filtered_data \<Rightarrow> filtered_data" where
  "apply_pass OnlyGaze fd = filter_only_gaze fd"
| "apply_pass (InvalidPupils lo hi) fd = filter_invalid_pupils fd lo hi"
| "apply_pass MissingData fd = filter_missing_data fd"
| "apply_pass (ByTimestamp lo now) fd = filter_by_timestamp fd lo now"
| "apply_pass (UnrealisticEventSpacing mi) fd = filter_unrealistic_event_spacing fd mi"
| "apply_pass (ConstantPupil n tol) fd = filter_constant_pupil fd n tol"
| "apply_pass (AsyncPupilSize tol) fd = filter_async_pupil_size fd tol"

fun apply_chain :: "filter_pass list \<Rightarrow> filtered_data \<Rightarrow> filtered_data" where
  "apply_chain [] fd = fd"
| "apply_chain (p # ps) fd = apply_chain ps (apply_pass p fd)"

section \<open>The sample table of the checkpoint snapshot of \<open>filtered_data.py\<close>\<close>

text \<open>
  The snapshot under \<open>.ipynb_checkpoints\<close> has three more calculated columns and computes
  the windowed statistics. Its definitions carry the suffix \<open>_ckpt\<close> where the name is
  already taken by the file above.
\<close>

record sample_ckpt = sample +
  avg_pupildiameter :: pyfloat
  std_pupildiameter :: pyfloat
  avg_pupildiameter_smooth :: pyfloat

record filtered_data_ckpt =
  ckpt_data :: "sample_ckpt dataframe"
  ckpt_start_timestamp :: "pyfloat option"
  ckpt_user_id :: "int option"

text \<open>\<open>np.sum\<close>, \<open>np.mean\<close> and \<open>np.std(values, ddof=ddof)\<close> over an array of doubles.\<close>

definition fsum :: "pyfloat list \<Rightarrow> pyfloat" where
  "fsum xs = foldl fadd (Fin 0) xs"

definition fmean :: "pyfloat list \<Rightarrow> pyfloat" where
  "fmean xs = fdiv (fsum xs) (Fin (real (length xs)))"

definition np_std :: "nat \<Rightarrow> pyfloat list \<Rightarrow> pyfloat" where
  "np_std ddof xs =
     (let m = fmean xs
      in fsqrt (fdiv (fsum (map (\<lambda>x. fmul (fsub x m) (fsub x m)) xs))
                     (Fin (real (length xs) - real ddof))))"

text \<open>\<open>np.nanmean\<close> and \<open>np.nanstd\<close> drop the \<open>NaN\<close> entries first.\<close>

definition nanmean :: "pyfloat list \<Rightarrow> pyfloat" where
  "nanmean xs = fmean (filter (\<lambda>x. x \<noteq> NaN) xs)"

definition nanstd :: "pyfloat list \<Rightarrow> pyfloat" where
  "nanstd xs = np_std 0 (filter (\<lambda>x. x \<noteq> NaN) xs)"

text \<open>
  \<open>df.loc[df['is_valid'] == True, column] = values\<close>: the values go to the valid rows, in
  order; \<open>upd\<close> writes the column.
\<close>

fun loc_valid_assign ::
  "(sample_ckpt \<Rightarrow> 'v \<Rightarrow> sample_ckpt) \<Rightarrow> 'v list \<Rightarrow> sample_ckpt list \<Rightarrow> sample_ckpt list" where
  "loc_valid_assign upd vs [] = []"
| "loc_valid_assign upd [] (r # rs) = r # rs"
| "loc_valid_assign upd (v # vs) (r # rs) =
     (if is_valid r then upd r v # loc_valid_assign upd vs rs
      else r # loc_valid_assign upd (v # vs) rs)"

text \<open>
  \<open>sort_values('timestamp').reset_index(drop=True)\<close>: ascending, missing timestamps last.
  Rows with equal timestamps keep their order here.
\<close>

definition timestamp_before :: "pyfloat \<Rightarrow> pyfloat \<Rightarrow> bool" where
  "timestamp_before a b = (b = NaN \<or> fle a b)"

fun insort_timestamp :: "sample_ckpt \<Rightarrow> sample_ckpt list \<Rightarrow> sample_ckpt list" where
  "insort_timestamp r [] = [r]"
| "insort_timestamp r (x # xs) =
     (if timestamp_before (timestamp r) (timestamp x) then r # x # xs
      else x # insort_timestamp r xs)"

definition sort_values_timestamp :: "sample_ckpt list \<Rightarrow> sample_ckpt list" where
  "sort_values_timestamp rs = foldr insort_timestamp rs []"

text \<open>
  \<open>FilteredData._reset_calculated_fields\<close> of the snapshot: a calculated column is created,
  filled with \<open>NaN\<close>, only when the table does not have it.
\<close>

definition ensure_is_valid_ckpt :: "sample_ckpt dataframe \<Rightarrow> sample_ckpt dataframe" where
  "ensure_is_valid_ckpt df =
     (if ''is_valid'' \<notin> set (columns df)
      then df\<lparr>rows := map (\<lambda>r. r\<lparr>is_valid := True\<rparr>) (rows df),
              columns := columns df @ [''is_valid'']\<rparr>
      else df)"

definition create_if_absent ::
  "string \<Rightarrow> (sample_ckpt \<Rightarrow> sample_ckpt) \<Rightarrow> sample_ckpt dataframe \<Rightarrow> sample_ckpt dataframe" where
  "create_if_absent field set_nan df =
     (if field \<notin> set (columns df)
      then df\<lparr>rows := map set_nan (rows df), columns := columns df @ [field]\<rparr>
      else df)"

definition reset_calculated_fields_ckpt :: "sample_ckpt dataframe \<Rightarrow> sample_ckpt dataframe" where
  "reset_calculated_fields_ckpt df =
     create_if_absent ''avg_pupildiameter_smooth'' (\<lambda>r. r\<lparr>avg_pupildiameter_smooth := NaN\<rparr>)
       (create_if_absent ''std_pupildiameter'' (\<lambda>r. r\<lparr>std_pupildiameter := NaN\<rparr>)
         (create_if_absent ''avg_pupildiameter'' (\<lambda>r. r\<lparr>avg_pupildiameter := NaN\<rparr>)
           (create_if_absent ''relative_timestamp'' (\<lambda>r. r\<lparr>relative_timestamp := NaN\<rparr>) df)))"

text \<open>
  The window of the rolling standard deviation: for the valid row \<open>i\<close> of the snapshot
  \<open>valid_data\<close>, the rows of \<open>valid_data\<close> whose relative timestamp lies in
  \<open>[t_i - 0.5, t_i + 0.5]\<close>; fewer than two give \<open>NaN\<close>.
\<close>

definition std_pupil_list :: "sample_ckpt list \<Rightarrow> pyfloat list" where
  "std_pupil_list valid_data =
     (let time_window = Fin (5 / 10);
          timestamps = map relative_timestamp valid_data;
          pupils = map avg_pupildiameter valid_data
      in map (\<lambda>current_time.
                let window_pupils =
                      map snd (filter (\<lambda>(t, p). fge t (fsub current_time time_window) \<and>
                                                 fle t (fadd current_time time_window))
                                 (zip timestamps pupils))
                in if length window_pupils \<ge> 2 then np_std 1 window_pupils else NaN)
             timestamps)"

text \<open>
  \<open>FilteredData._smooth_avg_pupildiameter\<close>: the table is sorted, the column is emptied, and
  every valid row gets the mean of the average diameters of the valid rows whose absolute
  timestamp lies within \<open>time_window_smooth\<close> of its own (its own value when no row does).
\<close>

definition smoothed_values :: "pyfloat \<Rightarrow> sample_ckpt list \<Rightarrow> pyfloat list" where
  "smoothed_values time_window_smooth valid =
     (let timestamps = map timestamp valid;
          vals = map avg_pupildiameter valid
      in map (\<lambda>(t, v).
                let window = map snd (filter (\<lambda>(u, w). fge u (fsub t time_window_smooth) \<and>
                                                       fle u (fadd t time_window_smooth))
                                        (zip timestamps vals))
                in if window \<noteq> [] then fmean window else v)
             (zip timestamps vals))"

definition smooth_avg_pupildiameter :: "pyfloat \<Rightarrow> sample_ckpt dataframe \<Rightarrow> sample_ckpt dataframe" where
  "smooth_avg_pupildiameter time_window_smooth df =
     (let sorted_rows = map (\<lambda>r. r\<lparr>avg_pupildiameter_smooth := NaN\<rparr>) (sort_values_timestamp (rows df))
      in df\<lparr>rows := loc_valid_assign (\<lambda>r v. r\<lparr>avg_pupildiameter_smooth := v\<rparr>)
                       (smoothed_values time_window_smooth (filter is_valid sorted_rows)) sorted_rows,
             columns := List.insert ''avg_pupildiameter_smooth'' (columns df)\<rparr>)"

text \<open>
  \<open>FilteredData._prepare_data\<close> of the snapshot. \<open>valid_data\<close> is the copy of the valid rows
  taken right after the reset: the relative timestamps and the average diameters that the
  rolling standard deviation reads are those the table held before this recomputation.
  The function gives the object that the call leaves when it returns; the call raises what
  the recomputation of \<open>filtered_data.py\<close> raises, on a table without the \<open>timestamp\<close> column
  and on a timestamp outside the range of datetimes while \<open>timestamp_readable\<close> is not there.
\<close>

definition prepare_data_ckpt :: "filtered_data_ckpt \<Rightarrow> filtered_data_ckpt" where
  "prepare_data_ckpt self =
     (let df1 = ensure_is_valid_ckpt (ckpt_data self);
          df2 = reset_calculated_fields_ckpt df1;
          valid_data = filter is_valid (rows df2);
          start = (if valid_data \<noteq> [] then Some (series_min (map timestamp valid_data)) else None);
          rows3 = (case start of
                     Some st \<Rightarrow> map (\<lambda>r. if is_valid r
                                          then r\<lparr>relative_timestamp := fsub (timestamp r) st\<rparr>
                                          else r) (rows df2)
                   | None \<Rightarrow> rows df2);
          rows4 = map (\<lambda>r. r\<lparr>avg_pupildiameter :=
                               fdiv (fadd (eyeleft_pupildiameter r) (eyeright_pupildiameter r)) (Fin 2)\<rparr>)
                    rows3;
          rows5 = (if valid_data \<noteq> []
                   then loc_valid_assign (\<lambda>r v. r\<lparr>std_pupildiameter := v\<rparr>)
                          (std_pupil_list valid_data) rows4
                   else map (\<lambda>r. r\<lparr>std_pupildiameter := NaN\<rparr>) rows4)
      in self\<lparr>ckpt_data := smooth_avg_pupildiameter (Fin (3 / 10))
                             (df2\<lparr>rows := rows5,
                                 columns := add_column ''timestamp_readable'' (columns df2)\<rparr>),
              ckpt_start_timestamp := start\<rparr>)"

definition FilteredData_ckpt :: "sample_ckpt dataframe \<Rightarrow> int option \<Rightarrow> filtered_data_ckpt" where
  "FilteredData_ckpt raw_df uid =
     (prepare_data_ckpt \<lparr>ckpt_data = raw_df, ckpt_start_timestamp = None, ckpt_user_id = None\<rparr>)
       \<lparr>ckpt_user_id := uid\<rparr>"

definition get_data_ckpt :: "filtered_data_ckpt \<Rightarrow> sample_ckpt dataframe" where
  "get_data_ckpt self = ckpt_data self"

definition set_data_ckpt :: "filtered_data_ckpt \<Rightarrow> sample_ckpt dataframe \<Rightarrow> filtered_data_ckpt" where
  "set_data_ckpt self new_data = prepare_data_ckpt (self\<lparr>ckpt_data := new_data\<rparr>)"

section \<open>The passes of the checkpoint snapshot of \<open>raw_data_filter.py\<close>\<close>

text \<open>
  \<open>filter_unrealistic_event_spacing\<close> of the snapshot marks the row of every small
  difference and the row before it (\<open>bad_indexes - 1\<close>; the index is the row position,
  since the recomputation resets it).
\<close>

definition mask_unrealistic_event_spacing_ckpt :: "pyfloat \<Rightarrow> sample_ckpt list \<Rightarrow> bool list" where
  "mask_unrealistic_event_spacing_ckpt min_interval rs =
     (let outlier_mask = map (\<lambda>d. flt d min_interval) (diff (map timestamp rs))
      in map2 (\<or>) outlier_mask (tl outlier_mask @ [False]))"

definition filter_unrealistic_event_spacing_ckpt ::
  "filtered_data_ckpt \<Rightarrow> pyfloat \<Rightarrow> filtered_data_ckpt" where
  "filter_unrealistic_event_spacing_ckpt fd min_interval =
     (let df = get_data_ckpt fd
      in set_data_ckpt fd
           (df\<lparr>rows := loc_set_invalid (mask_unrealistic_event_spacing_ckpt min_interval (rows df))
                          (rows df)\<rparr>))"

text \<open>
  \<open>filter_pupil_speed\<close>: the loop runs over the copy \<open>valid_data\<close> of the valid rows and
  marks both rows of every consecutive pair that is too fast.
\<close>

definition speed_exceeds :: "pyfloat \<Rightarrow> sample_ckpt \<Rightarrow> sample_ckpt \<Rightarrow> bool" where
  "speed_exceeds max_speed_mm_per_sec prev cur =
     (let delta_pupil = fabs (fsub (avg_pupildiameter cur) (avg_pupildiameter prev));
          delta_time = fsub (relative_timestamp cur) (relative_timestamp prev)
      in fgt delta_time (Fin 0) \<and> fgt (fdiv delta_pupil delta_time) max_speed_mm_per_sec)"

definition speed_marks :: "pyfloat \<Rightarrow> sample_ckpt list \<Rightarrow> bool list" where
  "speed_marks max_speed_mm_per_sec valid_data =
     foldl (\<lambda>marks i. if speed_exceeds max_speed_mm_per_sec (valid_data ! (i - 1)) (valid_data ! i)
                       then marks[i := True, i - 1 := True] else marks)
       (replicate (length valid_data) False) [1..<length valid_data]"

definition filter_pupil_speed :: "filtered_data_ckpt \<Rightarrow> pyfloat \<Rightarrow> error + filtered_data_ckpt" where
  "filter_pupil_speed fd max_speed_mm_per_sec =
     (let df = get_data_ckpt fd
      in if ''avg_pupildiameter'' \<notin> set (columns df) \<or> ''relative_timestamp'' \<notin> set (columns df)
         then Inl ValueError_missing_column
         else let valid_data = filter is_valid (rows df)
              in Inr (set_data_ckpt fd
                        (df\<lparr>rows := loc_valid_assign (\<lambda>r m. if m then r\<lparr>is_valid := False\<rparr> else r)
                                        (speed_marks max_speed_mm_per_sec valid_data) (rows df)\<rparr>)))"

text \<open>\<open>filter_by_std_outliers\<close>\<close>

definition std_outlier_mask :: "pyfloat \<Rightarrow> pyfloat \<Rightarrow> sample_ckpt list \<Rightarrow> bool list" where
  "std_outlier_mask time_window sigma_threshold valid_data =
     (let timestamps = map relative_timestamp valid_data;
          stds = map std_pupildiameter valid_data
      in map (\<lambda>(current_time, s).
                let local_stds =
                      map snd (filter (\<lambda>(t, x). fge t (fsub current_time time_window) \<and>
                                                 fle t (fadd current_time time_window))
                                 (zip timestamps stds))
                in if length local_stds \<ge> 2
                   then let mean_std = nanmean local_stds;
                            std_std = nanstd local_stds;
                            lower_bound = fsub mean_std (fmul sigma_threshold std_std);
                            upper_bound = fadd mean_std (fmul sigma_threshold std_std)
                        in \<not> (fle lower_bound s \<and> fle s upper_bound)
                   else False)
             (zip timestamps stds))"

definition filter_by_std_outliers ::
  "filtered_data_ckpt \<Rightarrow> pyfloat \<Rightarrow> pyfloat \<Rightarrow> error + filtered_data_ckpt" where
  "filter_by_std_outliers fFilterData time_window sigma_threshold =
     (let df = get_data_ckpt fFilterData
      in if ''std_pupildiameter'' \<notin> set (columns df)
         then Inl ValueError_missing_column
         else let valid_data = filter is_valid (rows df)
              in Inr (set_data_ckpt fFilterData
                        (df\<lparr>rows := loc_valid_assign (\<lambda>r m. if m then r\<lparr>is_valid := False\<rparr> else r)
                                        (std_outlier_mask time_window sigma_threshold valid_data)
                                        (rows df)\<rparr>)))"

text \<open>A pass applied twice in a row; an error of the first application is the result.\<close>

definition twice :: "('s \<Rightarrow> error + 's) \<Rightarrow> 's \<Rightarrow> error + 's" where
  "twice f s = (case f s of Inl e \<Rightarrow> Inl e | Inr s' \<Rightarrow> f s')"

section \<open>The chain of nine passes of the checkpoint snapshot\<close>

text \<open>
  The snapshot of \<open>raw_data_filter.py\<close> has the passes of the file above, word for word
  but for the spacing pass, and the speed and outlier passes. Here they work on the object
  of the snapshot of \<open>filtered_data.py\<close>; the masks are those defined above.
\<close>

definition filter_only_gaze_ckpt :: "filtered_data_ckpt \<Rightarrow> filtered_data_ckpt" where
  "filter_only_gaze_ckpt fd =
     (let df = get_data_ckpt fd
      in set_data_ckpt fd (df\<lparr>rows := loc_set_invalid (mask_only_gaze (rows df)) (rows df)\<rparr>))"

definition filter_invalid_pupils_ckpt ::
  "filtered_data_ckpt \<Rightarrow> pyfloat \<Rightarrow> pyfloat \<Rightarrow> filtered_data_ckpt" where
  "filter_invalid_pupils_ckpt fd min_size max_size =
     (let df = get_data_ckpt fd
      in set_data_ckpt fd
           (df\<lparr>rows := loc_set_invalid (mask_invalid_pupils min_size max_size (rows df)) (rows df)\<rparr>))"

definition filter_missing_data_ckpt :: "filtered_data_ckpt \<Rightarrow> filtered_data_ckpt" where
  "filter_missing_data_ckpt fd =
     (let df = get_data_ckpt fd
      in set_data_ckpt fd (df\<lparr>rows := loc_set_invalid (mask_missing_data (rows df)) (rows df)\<rparr>))"

definition filter_by_timestamp_ckpt ::
  "filtered_data_ckpt \<Rightarrow> pyfloat \<Rightarrow> pyfloat \<Rightarrow> filtered_data_ckpt" where
  "filter_by_timestamp_ckpt fd min_timestamp current_time =
     (let df = get_data_ckpt fd
      in set_data_ckpt fd
           (df\<lparr>rows := loc_set_invalid (mask_by_timestamp min_timestamp current_time (rows df)) (rows df)\<rparr>))"

definition filter_constant_pupil_ckpt ::
  "filtered_data_ckpt \<Rightarrow> int \<Rightarrow> pyfloat option \<Rightarrow> filtered_data_ckpt" where
  "filter_constant_pupil_ckpt fd max_static_steps tolerance =
     (let df = get_data_ckpt fd
      in set_data_ckpt fd
           (df\<lparr>rows := loc_set_invalid (mask_constant_pupil max_static_steps tolerance (rows df)) (rows df)\<rparr>))"

definition filter_async_pupil_size_ckpt ::
  "filtered_data_ckpt \<Rightarrow> pyfloat option \<Rightarrow> filtered_data_ckpt" where
  "filter_async_pupil_size_ckpt fd tolerance =
     (let df = get_data_ckpt fd
      in set_data_ckpt fd
           (df\<lparr>rows := loc_set_invalid (mask_async_pupil_size tolerance (rows df)) (rows df)\<rparr>))"

text \<open>
  A pass of the documented chain with its parameters: one of the seven passes above, the
  speed filter or the outlier filter. A run stops at the first pass that raises.
\<close>

datatype chain_pass =
    IndexPass filter_pass
  | PupilSpeed pyfloat
  | StdOutliers pyfloat pyfloat

fun apply_pass_ckpt :: "chain_pass \<Rightarrow> filtered_data_ckpt \<Rightarrow> error + filtered_data_ckpt" where
  "apply_pass_ckpt (IndexPass OnlyGaze) fd = Inr (filter_only_gaze_ckpt fd)"
| "apply_pass_ckpt (IndexPass (InvalidPupils lo hi)) fd = Inr (filter_invalid_pupils_ckpt fd lo hi)"
| "apply_pass_ckpt (IndexPass MissingData) fd = Inr (filter_missing_data_ckpt fd)"
| "apply_pass_ckpt (IndexPass (ByTimestamp lo now)) fd = Inr (filter_by_timestamp_ckpt fd lo now)"
| "apply_pass_ckpt (IndexPass (UnrealisticEventSpacing mi)) fd =
     Inr (filter_unrealistic_event_spacing_ckpt fd mi)"
| "apply_pass_ckpt (IndexPass (ConstantPupil n tol)) fd = Inr (filter_constant_pupil_ckpt fd n tol)"
| "apply_pass_ckpt (IndexPass (AsyncPupilSize tol)) fd = Inr (filter_async_pupil_size_ckpt fd tol)"
| "apply_pass_ckpt (PupilSpeed max_speed) fd = filter_pupil_speed fd max_speed"
| "apply_pass_ckpt (StdOutliers time_window sigma_threshold) fd =
     filter_by_std_outliers fd time_window sigma_threshold"

fun apply_chain_ckpt :: "chain_pass list \<Rightarrow> filtered_data_ckpt \<Rightarrow> error + filtered_data_ckpt" where
  "apply_chain_ckpt [] fd = Inr fd"
| "apply_chain_ckpt (p # ps) fd =
     (case apply_pass_ckpt p fd of Inl e \<Rightarrow> Inl e | Inr fd' \<Rightarrow> apply_chain_ckpt ps fd')"

section \<open>The phase metric extractor of \<open>calibration_processor.py\<close>\<close>

text \<open>
  A phase map is the dictionary \<open>{phase name: [start, end]}\<close>. \<open>load_time_ranges\<close> builds
  it from the entries that the timing file holds under the key \<open>str(user_id)\<close>; in a
  dictionary comprehension a later entry of the same name wins.
\<close>

type_synonym time_ranges = "string \<rightharpoonup> pyfloat \<times> pyfloat"

definition load_time_ranges ::
  "(string \<rightharpoonup> (string \<times> pyfloat \<times> pyfloat) list) \<Rightarrow> string \<Rightarrow> error + time_ranges" where
  "load_time_ranges all_timings user_key =
     (case all_timings user_key of
        None \<Rightarrow> Inl (ValueError_no_timings user_key)
      | Some items \<Rightarrow> Inr (map_of (rev items)))"

text \<open>The rows of a phase: valid, with the relative timestamp in the closed window.\<close>

definition segment :: "sample_ckpt dataframe \<Rightarrow> pyfloat \<Rightarrow> pyfloat \<Rightarrow> sample_ckpt list" where
  "segment df t0 t1 =
     filter (\<lambda>r. is_valid r \<and> fge (relative_timestamp r) t0 \<and> fle (relative_timestamp r) t1)
       (rows df)"

text \<open>
  \<open>Series.idxmax()\<close>: the position of the first largest entry, \<open>NaN\<close> entries skipped;
  there is none when every entry is \<open>NaN\<close>, and pandas fails then.
\<close>

fun argmax_from :: "nat \<Rightarrow> (nat \<times> pyfloat) option \<Rightarrow> pyfloat list \<Rightarrow> (nat \<times> pyfloat) option" where
  "argmax_from i best [] = best"
| "argmax_from i best (x # xs) =
     argmax_from (Suc i)
       (if x = NaN then best
        else case best of
               None \<Rightarrow> Some (i, x)
             | Some (j, y) \<Rightarrow> if flt y x then Some (i, x) else Some (j, y))
       xs"

definition idxmax :: "pyfloat list \<Rightarrow> nat option" where
  "idxmax xs = map_option fst (argmax_from 0 None xs)"

text \<open>\<open>Series.mean()\<close> and \<open>Series.std(ddof=1)\<close> skip the \<open>NaN\<close> entries.\<close>

definition series_mean :: "pyfloat list \<Rightarrow> pyfloat" where
  "series_mean xs = nanmean xs"

definition series_std :: "pyfloat list \<Rightarrow> pyfloat" where
  "series_std xs =
     (let ys = filter (\<lambda>x. x \<noteq> NaN) xs in if length ys \<le> 1 then NaN else np_std 1 ys)"

definition compute_baseline ::
  "filtered_data_ckpt \<Rightarrow> time_ranges \<Rightarrow> error + pyfloat \<times> pyfloat" where
  "compute_baseline filtered_data time_ranges =
     (let df = get_data_ckpt filtered_data
      in case time_ranges ''Baseline'' of
           None \<Rightarrow> Inl (KeyError ''Baseline'')
         | Some (t0, t1) \<Rightarrow>
             let seg = map avg_pupildiameter_smooth (segment df t0 t1)
             in if seg = [] then Inl (ValueError_no_valid_data ''baseline'' t0 t1)
                else Inr (series_mean seg, series_std seg))"

text \<open>
  Rise and fall speed around the peak of a phase. \<open>key\<close> is the name the function looks
  up in the phase map and \<open>label\<close> the name in its error message.
\<close>

definition rise_speed ::
  "string \<Rightarrow> string \<Rightarrow> filtered_data_ckpt \<Rightarrow> time_ranges \<Rightarrow> pyfloat \<Rightarrow> error + pyfloat" where
  "rise_speed key label filtered_data time_ranges baseline_mean =
     (let df = get_data_ckpt filtered_data
      in case time_ranges key of
           None \<Rightarrow> Inl (KeyError key)
         | Some (t0, t1) \<Rightarrow>
             let seg = segment df t0 t1
             in if seg = [] then Inl (ValueError_no_valid_data label t0 t1)
                else (case idxmax (map avg_pupildiameter_smooth seg) of
                        None \<Rightarrow> Inl ValueError_all_nan
                      | Some idx_peak \<Rightarrow>
                          let t_peak = relative_timestamp (seg ! idx_peak);
                              val_peak = avg_pupildiameter_smooth (seg ! idx_peak)
                          in Inr (fdiv (fsub val_peak baseline_mean) (fsub t_peak t0))))"

definition fall_speed ::
  "string \<Rightarrow> string \<Rightarrow> filtered_data_ckpt \<Rightarrow> time_ranges \<Rightarrow> pyfloat \<Rightarrow> error + pyfloat" where
  "fall_speed key label filtered_data time_ranges baseline_mean =
     (let df = get_data_ckpt filtered_data
      in case time_ranges key of
           None \<Rightarrow> Inl (KeyError key)
         | Some (t0, t1) \<Rightarrow>
             let seg = segment df t0 t1
             in if seg = [] then Inl (ValueError_no_valid_data label t0 t1)
                else (case idxmax (map avg_pupildiameter_smooth seg) of
                        None \<Rightarrow> Inl ValueError_all_nan
                      | Some idx_peak \<Rightarrow>
                          let t_peak = relative_timestamp (seg ! idx_peak);
                              val_peak = avg_pupildiameter_smooth (seg ! idx_peak)
                          in (case idxmax (map relative_timestamp seg) of
                                None \<Rightarrow> Inl ValueError_all_nan
                              | Some idx_end \<Rightarrow>
                                  let t_end = t1;
                                      val_end = avg_pupildiameter_smooth (seg ! idx_end)
                                  in Inr (fdiv (fsub val_peak val_end) (fsub t_end t_peak)))))"

definition mean_ratio ::
  "string \<Rightarrow> string \<Rightarrow> filtered_data_ckpt \<Rightarrow> time_ranges \<Rightarrow> pyfloat \<Rightarrow> error + pyfloat" where
  "mean_ratio key label filtered_data time_ranges baseline_mean =
     (let df = get_data_ckpt filtered_data
      in case time_ranges key of
           None \<Rightarrow> Inl (KeyError key)
         | Some (t0, t1) \<Rightarrow>
             let seg = map avg_pupildiameter_smooth (segment df t0 t1)
             in if seg = [] then Inl (ValueError_no_valid_data label t0 t1)
                else Inr (fdiv (series_mean seg) baseline_mean))"

text \<open>The functions of the class, each with the key it reads and the label it reports.\<close>

definition compute_positive_rise_speed ::
  "filtered_data_ckpt \<Rightarrow> time_ranges \<Rightarrow> pyfloat \<Rightarrow> error + pyfloat" where
  "compute_positive_rise_speed = rise_speed ''Positive'' ''positive''"

definition compute_positive_fall_speed ::
  "filtered_data_ckpt \<Rightarrow> time_ranges \<Rightarrow> pyfloat \<Rightarrow> error + pyfloat" where
  "compute_positive_fall_speed = fall_speed ''Positive'' ''positive''"

definition compute_negative_rise_speed ::
  "filtered_data_ckpt \<Rightarrow> time_ranges \<Rightarrow> pyfloat \<Rightarrow> error + pyfloat" where
  "compute_negative_rise_speed = rise_speed ''negative'' ''negative''"

definition compute_negative_fall_speed ::
  "filtered_data_ckpt \<Rightarrow> time_ranges \<Rightarrow> pyfloat \<Rightarrow> error + pyfloat" where
  "compute_negative_fall_speed = fall_speed ''Negative'' ''negative''"

definition compute_positive_mean_ratio ::
  "filtered_data_ckpt \<Rightarrow> time_ranges \<Rightarrow> pyfloat \<Rightarrow> error + pyfloat" where
  "compute_positive_mean_ratio = mean_ratio ''Positive'' ''positive''"

definition compute_negative_mean_ratio ::
  "filtered_data_ckpt \<Rightarrow> time_ranges \<Rightarrow> pyfloat \<Rightarrow> error + pyfloat" where
  "compute_negative_mean_ratio = mean_ratio ''Positive'' ''negative''"

section \<open>The calibration record of \<open>calibration_data.py\<close>\<close>

text \<open>
  A field of the record holds a Python number, an \<open>int\<close> or a \<open>float\<close>. A JSON object is
  the list of its members; \<open>json.dump\<close> writes the members of the dictionary in order and
  \<open>json.load\<close> reads them back, numbers unchanged (the later member wins when a name occurs
  twice). The text between the two is not modelled.
\<close>

datatype number = PyInt int | PyFloat pyfloat

record CalibrationData =
  user_id :: number
  baseline_mean :: number
  baseline_std :: number
  positive_rise_speed :: number
  negative_rise_speed :: number
  positive_fall_speed :: number
  negative_fall_speed :: number
  neutral2_recovery_speed :: number
  positive_mean_ratio :: number
  negative_mean_ratio :: number

definition to_dict :: "CalibrationData \<Rightarrow> (string \<times> number) list" where
  "to_dict self =
     [(''user_id'', user_id self),
      (''baseline_mean'', baseline_mean self),
      (''baseline_std'', baseline_std self),
      (''positive_rise_speed'', positive_rise_speed self),
      (''negative_rise_speed'', negative_rise_speed self),
      (''positive_fall_speed'', positive_fall_speed self),
      (''negative_fall_speed'', negative_fall_speed self),
      (''neutral2_recovery_speed'', neutral2_recovery_speed self),
      (''positive_mean_ratio'', positive_mean_ratio self),
      (''negative_mean_ratio'', negative_mean_ratio self)]"

definition save :: "CalibrationData \<Rightarrow> (string \<times> number) list" where
  "save self = to_dict self"

definition getitem :: "(string \<times> number) list \<Rightarrow> string \<Rightarrow> error + number" where
  "getitem d k = (case map_of (rev d) k of None \<Rightarrow> Inl (KeyError k) | Some v \<Rightarrow> Inr v)"

definition bind_error :: "error + 'a \<Rightarrow> ('a \<Rightarrow> error + 'b) \<Rightarrow> error + 'b" where
  "bind_error x f = (case x of Inl e \<Rightarrow> Inl e | Inr v \<Rightarrow> f v)"

definition load :: "(string \<times> number) list \<Rightarrow> error + CalibrationData" where
  "load d =
     bind_error (getitem d ''user_id'') (\<lambda>v0.
     bind_error (getitem d ''baseline_mean'') (\<lambda>v1.
     bind_error (getitem d ''baseline_std'') (\<lambda>v2.
     bind_error (getitem d ''positive_rise_speed'') (\<lambda>v3.
     bind_error (getitem d ''negative_rise_speed'') (\<lambda>v4.
     bind_error (getitem d ''positive_fall_speed'') (\<lambda>v5.
     bind_error (getitem d ''negative_fall_speed'') (\<lambda>v6.
     bind_error (getitem d ''neutral2_recovery_speed'') (\<lambda>v7.
     bind_error (getitem d ''positive_mean_ratio'') (\<lambda>v8.
     bind_error (getitem d ''negative_mean_ratio'') (\<lambda>v9.
       Inr \<lparr>user_id = v0, baseline_mean = v1, baseline_std = v2,
            positive_rise_speed = v3, negative_rise_speed = v4,
            positive_fall_speed = v5, negative_fall_speed = v6,
            neutral2_recovery_speed = v7,
            positive_mean_ratio = v8, negative_mean_ratio = v9\<rparr>))))))))))"

section \<open>What the specification says, where the program is compared with it\<close>

text \<open>
  Modelled from the spec: \<open>std_diameter\<close> of a row of a table is the sample standard
  deviation (degrees of freedom 1) of \<open>avg_diameter\<close> over the valid rows whose
  \<open>relative_timestamp\<close> lies in \<open>[t - 0.5, t + 0.5]\<close>, and undefined when fewer than two
  rows fall in the window.
\<close>

definition spec_std_diameter :: "sample_ckpt list \<Rightarrow> sample_ckpt \<Rightarrow> pyfloat" where
  "spec_std_diameter table row =
     (let window = map avg_pupildiameter
                     (filter (\<lambda>r. is_valid r \<and>
                                   fle (fsub (relative_timestamp row) (Fin (1 / 2))) (relative_timestamp r) \<and>
                                   fle (relative_timestamp r) (fadd (relative_timestamp row) (Fin (1 / 2))))
                        table)
      in if length window < 2 then NaN else np_std 1 window)"


text \<open>
  Modelled from the spec: the mean ratio and the rise speed of the Negative phase are taken
  over the window that the phase map holds under the name \<open>Negative\<close>.
\<close>

definition spec_negative_mean_ratio ::
  "filtered_data_ckpt \<Rightarrow> time_ranges \<Rightarrow> pyfloat \<Rightarrow> error + pyfloat" where
  "spec_negative_mean_ratio = mean_ratio ''Negative'' ''negative''"

definition spec_negative_rise_speed ::
  "filtered_data_ckpt \<Rightarrow> time_ranges \<Rightarrow> pyfloat \<Rightarrow> error + pyfloat" where
  "spec_negative_rise_speed = rise_speed ''Negative'' ''negative''"


text \<open>
  Modelled from the spec: the nine scalar fields of the calibration record, the recovery
  speed under the name the program gives it.
\<close>

definition nine_fields :: "string list" where
  "nine_fields =
     [''baseline_mean'', ''baseline_std'', ''positive_rise_speed'', ''negative_rise_speed'',
      ''positive_fall_speed'', ''negative_fall_speed'', ''neutral2_recovery_speed'',
      ''positive_mean_ratio'', ''negative_mean_ratio'']"

section \<open>Example tables\<close>

text \<open>A row as the raw record supplier delivers it, with a validity flag.\<close>

definition raw_row :: "pyfloat \<Rightarrow> string \<Rightarrow> pyfloat \<Rightarrow> pyfloat \<Rightarrow> bool \<Rightarrow> sample" where
  "raw_row t ty l r v =
     \<lparr>timestamp = t, event_type = ty, eyeleft_pupildiameter = l, eyeright_pupildiameter = r,
      is_valid = v, relative_timestamp = NaN\<rparr>"

definition raw_columns :: "string list" where
  "raw_columns = [''timestamp'', ''type'', ''eyeleft.pupildiameter'', ''eyeright.pupildiameter'']"

definition empty_object :: filtered_data where
  "empty_object =
     \<lparr>self_data = \<lparr>rows = [], columns = []\<rparr>, self_start_timestamp = None, self_user_id = None\<rparr>"

text \<open>Three rows: a gaze event, an event of another type, and an invalid row with a missing eye.\<close>

definition chain_table :: "sample dataframe" where
  "chain_table =
     \<lparr>rows = [raw_row (Fin 0) ''gaze'' (Fin 3) (Fin 3) True,
              raw_row (Fin 1) ''blink'' (Fin 3) (Fin 3) True,
              raw_row (Fin 2) ''gaze'' NaN (Fin 3) False],
      columns = raw_columns @ [''is_valid'']\<rparr>"

text \<open>
  A table as \<open>get_data\<close> returns it after a pass has cleared the flag of its first row: the
  first row still holds the relative time it got while it was valid.
\<close>

definition stale_table :: "sample dataframe" where
  "stale_table =
     \<lparr>rows = [(raw_row (Fin 12) ''gaze'' (Fin 3) (Fin 3) False)\<lparr>relative_timestamp := Fin 2\<rparr>,
              (raw_row (Fin 10) ''gaze'' (Fin 3) (Fin 3) True)\<lparr>relative_timestamp := Fin 0\<rparr>,
              (raw_row (Fin 11) ''gaze'' (Fin 3) (Fin 3) True)\<lparr>relative_timestamp := Fin 1\<rparr>],
      columns = raw_columns @ [''is_valid'', ''relative_timestamp'', ''timestamp_readable'']\<rparr>"

definition none_valid_table :: "sample dataframe" where
  "none_valid_table =
     \<lparr>rows = [(raw_row (Fin 12) ''gaze'' (Fin 3) (Fin 3) False)\<lparr>relative_timestamp := Fin 2\<rparr>],
      columns = raw_columns @ [''is_valid'', ''relative_timestamp'', ''timestamp_readable'']\<rparr>"

text \<open>
  The table of an empty recording, and a table whose only row is invalid and carries a
  timestamp of \<open>10^10\<close> seconds.
\<close>

definition empty_recording :: "sample dataframe" where
  "empty_recording = \<lparr>rows = [], columns = []\<rparr>"

definition late_table :: "sample dataframe" where
  "late_table =
     \<lparr>rows = [raw_row (Fin (10 ^ 10)) ''gaze'' (Fin 3) (Fin 3) False],
      columns = raw_columns @ [''is_valid'']\<rparr>"

text \<open>Two valid gaze rows less than a millisecond apart.\<close>

definition spacing_table :: "sample dataframe" where
  "spacing_table =
     \<lparr>rows = [raw_row (Fin 100) ''gaze'' (Fin 3) (Fin 3) True,
              raw_row (Fin (100 + 1 / 1024)) ''gaze'' (Fin 3) (Fin 3) True],
      columns = raw_columns\<rparr>"

text \<open>Rows and tables for the checkpoint snapshot.\<close>

definition raw_row_ckpt :: "pyfloat \<Rightarrow> string \<Rightarrow> pyfloat \<Rightarrow> pyfloat \<Rightarrow> sample_ckpt" where
  "raw_row_ckpt t ty l r =
     \<lparr>timestamp = t, event_type = ty, eyeleft_pupildiameter = l, eyeright_pupildiameter = r,
      is_valid = True, relative_timestamp = NaN,
      avg_pupildiameter = NaN, std_pupildiameter = NaN, avg_pupildiameter_smooth = NaN\<rparr>"

definition gaze_row_ckpt ::
  "pyfloat \<Rightarrow> pyfloat \<Rightarrow> bool \<Rightarrow> pyfloat \<Rightarrow> pyfloat \<Rightarrow> pyfloat \<Rightarrow> pyfloat \<Rightarrow> sample_ckpt" where
  "gaze_row_ckpt t d v rel av sd sm =
     \<lparr>timestamp = t, event_type = ''gaze'', eyeleft_pupildiameter = d, eyeright_pupildiameter = d,
      is_valid = v, relative_timestamp = rel,
      avg_pupildiameter = av, std_pupildiameter = sd, avg_pupildiameter_smooth = sm\<rparr>"

definition all_columns :: "string list" where
  "all_columns = raw_columns @
                 [''is_valid'', ''relative_timestamp'', ''avg_pupildiameter'',
                  ''std_pupildiameter'', ''avg_pupildiameter_smooth'', ''timestamp_readable'']"

definition new_object_ckpt :: "sample_ckpt dataframe \<Rightarrow> filtered_data_ckpt" where
  "new_object_ckpt raw_df = \<lparr>ckpt_data = raw_df, ckpt_start_timestamp = None, ckpt_user_id = None\<rparr>"

text \<open>
  One row before the phases and rows at relative times 40, 60 and 100; the row at 60, the
  end of the Positive phase, has the largest diameter of that phase.
\<close>

definition phase_table :: "sample_ckpt dataframe" where
  "phase_table =
     \<lparr>rows = [raw_row_ckpt (Fin 1000) ''gaze'' (Fin 3) (Fin 3),
              raw_row_ckpt (Fin 1040) ''gaze'' (Fin 4) (Fin 4),
              raw_row_ckpt (Fin 1060) ''gaze'' (Fin 5) (Fin 5),
              raw_row_ckpt (Fin 1100) ''gaze'' (Fin 7) (Fin 7)],
      columns = raw_columns\<rparr>"

definition phase_entries :: "(string \<times> pyfloat \<times> pyfloat) list" where
  "phase_entries =
     [(''Baseline'', Fin 0, Fin 30), (''Positive'', Fin 30, Fin 60),
      (''Neutral_2'', Fin 60, Fin 90), (''Negative'', Fin 90, Fin 120)]"

definition phase_timings :: "string \<rightharpoonup> (string \<times> pyfloat \<times> pyfloat) list" where
  "phase_timings = [''704'' \<mapsto> phase_entries]"

definition phase_ranges :: time_ranges where
  "phase_ranges = map_of (rev phase_entries)"

text \<open>Two valid rows a quarter of a second apart, with average diameters 2 and 4.\<close>

definition std_table :: "sample_ckpt dataframe" where
  "std_table =
     \<lparr>rows = [raw_row_ckpt (Fin 100) ''gaze'' (Fin 2) (Fin 2),
              raw_row_ckpt (Fin (100 + 1 / 4)) ''gaze'' (Fin 4) (Fin 4)],
      columns = raw_columns\<rparr>"


text \<open>A calibration record.\<close>

definition example_record :: CalibrationData where
  "example_record =
     \<lparr>user_id = PyInt 704, baseline_mean = PyFloat (Fin 3), baseline_std = PyFloat (Fin (1 / 4)),
      positive_rise_speed = PyFloat (Fin (1 / 15)), negative_rise_speed = PyFloat NaN,
      positive_fall_speed = PyFloat PInf, negative_fall_speed = PyFloat (Fin 0),
      neutral2_recovery_speed = PyFloat (Fin (- 1 / 60)),
      positive_mean_ratio = PyFloat (Fin (3 / 2)), negative_mean_ratio = PyFloat (Fin (7 / 3))\<rparr>"

text \<open>
  Four valid rows with average diameters 3, 3, 8.5, 8.5 at relative times 0, 1/8, 7/8, 1, and
  the rows of the table after construction, after one speed pass and after a second one.
\<close>

definition speed_table :: "sample_ckpt dataframe" where
  "speed_table =
     \<lparr>rows = [raw_row_ckpt (Fin 200) ''gaze'' (Fin 3) (Fin 3),
              raw_row_ckpt (Fin (200 + 1 / 8)) ''gaze'' (Fin 3) (Fin 3),
              raw_row_ckpt (Fin (200 + 7 / 8)) ''gaze'' (Fin (17 / 2)) (Fin (17 / 2)),
              raw_row_ckpt (Fin 201) ''gaze'' (Fin (17 / 2)) (Fin (17 / 2))],
      columns = raw_columns\<rparr>"

definition speed_rows0 :: "sample_ckpt list" where
  "speed_rows0 =
     [gaze_row_ckpt (Fin 200) (Fin 3) True (Fin 0) (Fin 3) NaN (Fin 3),
      gaze_row_ckpt (Fin (200 + 1 / 8)) (Fin 3) True (Fin (1 / 8)) (Fin 3) NaN (Fin 3),
      gaze_row_ckpt (Fin (200 + 7 / 8)) (Fin (17 / 2)) True (Fin (7 / 8)) (Fin (17 / 2)) NaN (Fin (17 / 2)),
      gaze_row_ckpt (Fin 201) (Fin (17 / 2)) True (Fin 1) (Fin (17 / 2)) NaN (Fin (17 / 2))]"

definition speed_rows1 :: "sample_ckpt list" where
  "speed_rows1 =
     [gaze_row_ckpt (Fin 200) (Fin 3) True (Fin 0) (Fin 3) NaN (Fin 3),
      gaze_row_ckpt (Fin (200 + 1 / 8)) (Fin 3) False (Fin (1 / 8)) (Fin 3) NaN NaN,
      gaze_row_ckpt (Fin (200 + 7 / 8)) (Fin (17 / 2)) False (Fin (7 / 8)) (Fin (17 / 2)) NaN NaN,
      gaze_row_ckpt (Fin 201) (Fin (17 / 2)) True (Fin 1) (Fin (17 / 2)) NaN (Fin (17 / 2))]"

definition speed_rows2 :: "sample_ckpt list" where
  "speed_rows2 =
     [gaze_row_ckpt (Fin 200) (Fin 3) False (Fin 0) (Fin 3) NaN NaN,
      gaze_row_ckpt (Fin (200 + 1 / 8)) (Fin 3) False (Fin (1 / 8)) (Fin 3) NaN NaN,
      gaze_row_ckpt (Fin (200 + 7 / 8)) (Fin (17 / 2)) False (Fin (7 / 8)) (Fin (17 / 2)) NaN NaN,
      gaze_row_ckpt (Fin 201) (Fin (17 / 2)) False (Fin 1) (Fin (17 / 2)) NaN NaN]"

text \<open>
  Five valid rows at relative times 0, 1/2, 5/4, 7/4, 9/4, all eyes at 3 but for a missing left
  eye in the last row, and the rows of the table after construction, after a speed pass
  that marks nothing, and after one and two passes of the outlier filter.
\<close>

definition outlier_table :: "sample_ckpt dataframe" where
  "outlier_table =
     \<lparr>rows = [raw_row_ckpt (Fin 300) ''gaze'' (Fin 3) (Fin 3),
              raw_row_ckpt (Fin (300 + 1 / 2)) ''gaze'' (Fin 3) (Fin 3),
              raw_row_ckpt (Fin (300 + 5 / 4)) ''gaze'' (Fin 3) (Fin 3),
              raw_row_ckpt (Fin (300 + 7 / 4)) ''gaze'' (Fin 3) (Fin 3),
              raw_row_ckpt (Fin (300 + 9 / 4)) ''gaze'' NaN (Fin 3)],
      columns = raw_columns\<rparr>"

definition outlier_rows0 :: "sample_ckpt list" where
  "outlier_rows0 =
     [gaze_row_ckpt (Fin 300) (Fin 3) True (Fin 0) (Fin 3) NaN (Fin 3),
      gaze_row_ckpt (Fin (300 + 1 / 2)) (Fin 3) True (Fin (1 / 2)) (Fin 3) NaN (Fin 3),
      gaze_row_ckpt (Fin (300 + 5 / 4)) (Fin 3) True (Fin (5 / 4)) (Fin 3) NaN (Fin 3),
      gaze_row_ckpt (Fin (300 + 7 / 4)) (Fin 3) True (Fin (7 / 4)) (Fin 3) NaN (Fin 3),
      (gaze_row_ckpt (Fin (300 + 9 / 4)) (Fin 3) True (Fin (9 / 4)) NaN NaN NaN)\<lparr>eyeleft_pupildiameter := NaN\<rparr>]"

definition outlier_rows1 :: "sample_ckpt list" where
  "outlier_rows1 =
     [gaze_row_ckpt (Fin 300) (Fin 3) True (Fin 0) (Fin 3) (Fin 0) (Fin 3),
      gaze_row_ckpt (Fin (300 + 1 / 2)) (Fin 3) True (Fin (1 / 2)) (Fin 3) (Fin 0) (Fin 3),
      gaze_row_ckpt (Fin (300 + 5 / 4)) (Fin 3) True (Fin (5 / 4)) (Fin 3) (Fin 0) (Fin 3),
      gaze_row_ckpt (Fin (300 + 7 / 4)) (Fin 3) True (Fin (7 / 4)) (Fin 3) NaN (Fin 3),
      (gaze_row_ckpt (Fin (300 + 9 / 4)) (Fin 3) True (Fin (9 / 4)) NaN NaN NaN)\<lparr>eyeleft_pupildiameter := NaN\<rparr>]"

definition outlier_rows2 :: "sample_ckpt list" where
  "outlier_rows2 =
     [gaze_row_ckpt (Fin 300) (Fin 3) True (Fin 0) (Fin 3) (Fin 0) (Fin 3),
      gaze_row_ckpt (Fin (300 + 1 / 2)) (Fin 3) True (Fin (1 / 2)) (Fin 3) (Fin 0) (Fin 3),
      gaze_row_ckpt (Fin (300 + 5 / 4)) (Fin 3) True (Fin (5 / 4)) (Fin 3) NaN (Fin 3),
      gaze_row_ckpt (Fin (300 + 7 / 4)) (Fin 3) False (Fin (7 / 4)) (Fin 3) NaN NaN,
      (gaze_row_ckpt (Fin (300 + 9 / 4)) (Fin 3) False (Fin (9 / 4)) NaN NaN NaN)\<lparr>eyeleft_pupildiameter := NaN\<rparr>]"

definition outlier_rows3 :: "sample_ckpt list" where
  "outlier_rows3 =
     [gaze_row_ckpt (Fin 300) (Fin 3) True (Fin 0) (Fin 3) (Fin 0) (Fin 3),
      gaze_row_ckpt (Fin (300 + 1 / 2)) (Fin 3) True (Fin (1 / 2)) (Fin 3) (Fin 0) (Fin 3),
      gaze_row_ckpt (Fin (300 + 5 / 4)) (Fin 3) False (Fin (5 / 4)) (Fin 3) NaN NaN,
      gaze_row_ckpt (Fin (300 + 7 / 4)) (Fin 3) False (Fin (7 / 4)) (Fin 3) NaN NaN,
      (gaze_row_ckpt (Fin (300 + 9 / 4)) (Fin 3) False (Fin (9 / 4)) NaN NaN NaN)\<lparr>eyeleft_pupildiameter := NaN\<rparr>]"

definition outlier_state :: "sample_ckpt list \<Rightarrow> filtered_data_ckpt" where
  "outlier_state rs =
     \<lparr>ckpt_data = \<lparr>rows = rs, columns = all_columns\<rparr>,
      ckpt_start_timestamp = Some (Fin 300), ckpt_user_id = Some 704\<rparr>"

section \<open>Auxiliary notions for the proofs\<close>

text \<open>The raw columns of a row: what the supplier delivered.\<close>

definition raw_of :: "sample \<Rightarrow> pyfloat \<times> string \<times> pyfloat \<times> pyfloat" where
  "raw_of r = (timestamp r, event_type r, eyeleft_pupildiameter r, eyeright_pupildiameter r)"

text \<open>The mask of a pass, by case on the pass.\<close>

fun pass_mask :: "filter_pass \<Rightarrow> sample list \<Rightarrow> bool list" where
  "pass_mask OnlyGaze rs = mask_only_gaze rs"
| "pass_mask (InvalidPupils lo hi) rs = mask_invalid_pupils lo hi rs"
| "pass_mask MissingData rs = mask_missing_data rs"
| "pass_mask (ByTimestamp lo now) rs = mask_by_timestamp lo now rs"
| "pass_mask (UnrealisticEventSpacing mi) rs = mask_unrealistic_event_spacing mi rs"
| "pass_mask (ConstantPupil n tol) rs = mask_constant_pupil n tol rs"
| "pass_mask (AsyncPupilSize tol) rs = mask_async_pupil_size tol rs"

text \<open>No row that is invalid in the old table is valid in the new one.\<close>

definition no_revival :: "'a sample_scheme list \<Rightarrow> 'a sample_scheme list \<Rightarrow> bool" where
  "no_revival old new = list_all2 (\<lambda>a b. is_valid b \<longrightarrow> is_valid a) old new"

text \<open>The validity flags of the table a pass returns.\<close>

definition validity :: "error + filtered_data_ckpt \<Rightarrow> error + bool list" where
  "validity res =
     (case res of Inl e \<Rightarrow> Inl e | Inr s \<Rightarrow> Inr (map is_valid (rows (get_data_ckpt s))))"


text \<open>The rows are in the order of \<open>sort_values('timestamp')\<close>: ascending, missing last.\<close>

definition timestamp_ordered :: "'a sample_scheme list \<Rightarrow> bool" where
  "timestamp_ordered rs =
     sorted_wrt (\<lambda>a b. timestamp_before (timestamp a) (timestamp b)) rs"

text \<open>The mask of one of the seven passes in the snapshot, by case on the pass.\<close>

fun pass_mask_ckpt :: "filter_pass \<Rightarrow> sample_ckpt list \<Rightarrow> bool list" where
  "pass_mask_ckpt OnlyGaze rs = mask_only_gaze rs"
| "pass_mask_ckpt (InvalidPupils lo hi) rs = mask_invalid_pupils lo hi rs"
| "pass_mask_ckpt MissingData rs = mask_missing_data rs"
| "pass_mask_ckpt (ByTimestamp lo now) rs = mask_by_timestamp lo now rs"
| "pass_mask_ckpt (UnrealisticEventSpacing mi) rs = mask_unrealistic_event_spacing_ckpt mi rs"
| "pass_mask_ckpt (ConstantPupil n tol) rs = mask_constant_pupil n tol rs"
| "pass_mask_ckpt (AsyncPupilSize tol) rs = mask_async_pupil_size tol rs"

text \<open>Timestamp and flag of a row.\<close>

definition kv :: "sample_ckpt \<Rightarrow> pyfloat \<times> bool" where
  "kv r = (timestamp r, is_valid r)"

text \<open>
  What every object of the snapshot satisfies once a recomputation has run: the columns
  that the passes read are there and the rows are in timestamp order.
\<close>

definition chain_ready :: "filtered_data_ckpt \<Rightarrow> bool" where
  "chain_ready s =
     ({''is_valid'', ''relative_timestamp'', ''avg_pupildiameter'', ''std_pupildiameter''}
        \<subseteq> set (columns (ckpt_data s)) \<and>
      timestamp_ordered (rows (ckpt_data s)))"

section \<open>Facts about the table and the passes\<close>

lemma length_shift [simp]: "length (shift xs) = length xs"
  by (simp add: shift_def)

lemma length_diff [simp]: "length (diff xs) = length xs"
  by (simp add: diff_def)

lemma length_cumsum_from [simp]: "length (cumsum_from a bs) = length bs"
  by (induction bs arbitrary: a) simp_all

lemma length_cumsum [simp]: "length (cumsum bs) = length bs"
  by (simp add: cumsum_def)

lemma length_transform_size [simp]: "length (transform_size ks) = length ks"
  by (simp add: transform_size_def)

lemma length_mask_only_gaze [simp]: "length (mask_only_gaze rs) = length rs"
  by (simp add: mask_only_gaze_def)

lemma length_mask_invalid_pupils [simp]: "length (mask_invalid_pupils lo hi rs) = length rs"
  by (simp add: mask_invalid_pupils_def)

lemma length_mask_missing_data [simp]: "length (mask_missing_data rs) = length rs"
  by (simp add: mask_missing_data_def)

lemma length_mask_by_timestamp [simp]: "length (mask_by_timestamp lo now rs) = length rs"
  by (simp add: mask_by_timestamp_def)

lemma length_mask_unrealistic_event_spacing [simp]:
  "length (mask_unrealistic_event_spacing mi rs) = length rs"
  by (simp add: mask_unrealistic_event_spacing_def)

lemma length_mask_constant_pupil [simp]: "length (mask_constant_pupil n tol rs) = length rs"
  by (simp add: mask_constant_pupil_def Let_def)

lemma length_mask_async_pupil_size [simp]: "length (mask_async_pupil_size tol rs) = length rs"
  by (simp add: mask_async_pupil_size_def Let_def)

lemma raw_of_fields:
  "map timestamp rs = map (\<lambda>q. fst q) (map raw_of rs)"
  "map event_type rs = map (\<lambda>q. fst (snd q)) (map raw_of rs)"
  "map eyeleft_pupildiameter rs = map (\<lambda>q. fst (snd (snd q))) (map raw_of rs)"
  "map eyeright_pupildiameter rs = map (\<lambda>q. snd (snd (snd q))) (map raw_of rs)"
  by (simp_all add: raw_of_def)

lemma loc_set_invalid_length [simp]:
  "length msk = length rs \<Longrightarrow> length (loc_set_invalid msk rs) = length rs"
  by (simp add: loc_set_invalid_def)

lemma loc_set_invalid_raw:
  "length msk = length rs \<Longrightarrow> map raw_of (loc_set_invalid msk rs) = map raw_of rs"
  by (induction msk rs rule: list_induct2) (simp_all add: loc_set_invalid_def raw_of_def)

lemma loc_set_invalid_valid:
  "length msk = length rs \<Longrightarrow>
   map is_valid (loc_set_invalid msk rs) = map2 (\<lambda>m v. v \<and> \<not> m) msk (map is_valid rs)"
  by (induction msk rs rule: list_induct2) (simp_all add: loc_set_invalid_def)

lemma prepare_data_length [simp]:
  "length (rows (self_data (prepare_data s))) = length (rows (self_data s))"
  by (simp add: prepare_data_def add_column_def ensure_is_valid_def reset_calculated_fields_def Let_def)

lemma prepare_data_raw:
  "map raw_of (rows (self_data (prepare_data s))) = map raw_of (rows (self_data s))"
  by (simp add: prepare_data_def add_column_def ensure_is_valid_def reset_calculated_fields_def Let_def raw_of_def)

lemma prepare_data_valid:
  "''is_valid'' \<in> set (columns (self_data s)) \<Longrightarrow>
   map is_valid (rows (self_data (prepare_data s))) = map is_valid (rows (self_data s))"
  by (simp add: prepare_data_def add_column_def ensure_is_valid_def reset_calculated_fields_def Let_def)

lemma prepare_data_columns:
  "''is_valid'' \<in> set (columns (self_data (prepare_data s)))"
  by (simp add: prepare_data_def add_column_def ensure_is_valid_def reset_calculated_fields_def Let_def)

lemma length_pass_mask [simp]: "length (pass_mask p rs) = length rs"
  by (cases p) simp_all

lemma apply_pass_eq:
  "apply_pass p fd =
     set_data fd ((get_data fd)\<lparr>rows := loc_set_invalid (pass_mask p (rows (get_data fd))) (rows (get_data fd))\<rparr>)"
  by (cases p)
     (simp_all add: filter_only_gaze_def filter_invalid_pupils_def filter_missing_data_def
        filter_by_timestamp_def filter_unrealistic_event_spacing_def filter_constant_pupil_def
        filter_async_pupil_size_def Let_def)

lemma pass_mask_raw:
  assumes "map raw_of rs = map raw_of rs'"
  shows "pass_mask p rs = pass_mask p rs'"
  by (cases p)
     (simp_all add: mask_only_gaze_def mask_invalid_pupils_def mask_missing_data_def
        mask_by_timestamp_def mask_unrealistic_event_spacing_def mask_constant_pupil_def
        mask_async_pupil_size_def raw_of_fields assms)

lemma apply_pass_length [simp]:
  "length (rows (get_data (apply_pass p fd))) = length (rows (get_data fd))"
  by (simp add: apply_pass_eq set_data_def get_data_def)

lemma apply_pass_raw:
  "map raw_of (rows (get_data (apply_pass p fd))) = map raw_of (rows (get_data fd))"
  by (simp add: apply_pass_eq set_data_def get_data_def prepare_data_raw loc_set_invalid_raw)

lemma apply_pass_columns:
  "''is_valid'' \<in> set (columns (get_data (apply_pass p fd)))"
  by (simp add: apply_pass_eq set_data_def get_data_def prepare_data_columns)

lemma apply_pass_valid:
  assumes "''is_valid'' \<in> set (columns (get_data fd))"
  shows "map is_valid (rows (get_data (apply_pass p fd))) =
         map2 (\<lambda>m v. v \<and> \<not> m) (pass_mask p (rows (get_data fd))) (map is_valid (rows (get_data fd)))"
  using assms
  by (simp add: apply_pass_eq set_data_def get_data_def prepare_data_valid loc_set_invalid_valid)

lemma apply_chain_columns:
  "''is_valid'' \<in> set (columns (get_data fd)) \<Longrightarrow>
   ''is_valid'' \<in> set (columns (get_data (apply_chain ps fd)))"
  by (induction ps arbitrary: fd) (simp_all add: apply_pass_columns)

lemma apply_chain_append: "apply_chain (ps @ qs) fd = apply_chain qs (apply_chain ps fd)"
  by (induction ps arbitrary: fd) simp_all

lemma apply_chain_length [simp]:
  "length (rows (get_data (apply_chain ps fd))) = length (rows (get_data fd))"
  by (induction ps arbitrary: fd) simp_all

lemma no_revival_refl: "no_revival rs rs"
  by (simp add: no_revival_def list_all2_same)

lemma no_revival_trans: "no_revival xs ys \<Longrightarrow> no_revival ys zs \<Longrightarrow> no_revival xs zs"
  unfolding no_revival_def list_all2_conv_all_nth by auto

lemma no_revival_step:
  assumes "''is_valid'' \<in> set (columns (get_data fd))"
  shows "no_revival (rows (get_data fd)) (rows (get_data (apply_pass p fd)))"
proof -
  have "\<forall>i<length (rows (get_data fd)).
          is_valid (rows (get_data (apply_pass p fd)) ! i) \<longrightarrow> is_valid (rows (get_data fd) ! i)"
  proof (intro allI impI)
    fix i assume i: "i < length (rows (get_data fd))"
      and v: "is_valid (rows (get_data (apply_pass p fd)) ! i)"
    have "is_valid (rows (get_data (apply_pass p fd)) ! i)
            = (map is_valid (rows (get_data (apply_pass p fd)))) ! i"
      using i by simp
    also have "\<dots> = (is_valid (rows (get_data fd) ! i) \<and> \<not> pass_mask p (rows (get_data fd)) ! i)"
      using i by (simp add: apply_pass_valid[OF assms])
    finally show "is_valid (rows (get_data fd) ! i)" using v by simp
  qed
  then show ?thesis
    by (simp add: no_revival_def list_all2_conv_all_nth)
qed

lemma no_revival_chain:
  "''is_valid'' \<in> set (columns (get_data fd)) \<Longrightarrow>
   no_revival (rows (get_data fd)) (rows (get_data (apply_chain ps fd)))"
proof (induction ps arbitrary: fd)
  case Nil
  then show ?case by (simp add: no_revival_refl)
next
  case (Cons p ps)
  have "no_revival (rows (get_data fd)) (rows (get_data (apply_pass p fd)))"
    by (rule no_revival_step[OF Cons.prems])
  moreover have "no_revival (rows (get_data (apply_pass p fd)))
                   (rows (get_data (apply_chain ps (apply_pass p fd))))"
    by (rule Cons.IH[OF apply_pass_columns])
  ultimately show ?case
    by (simp add: no_revival_trans)
qed

lemma FilteredData_columns: "''is_valid'' \<in> set (columns (get_data (FilteredData df uid)))"
  by (simp add: FilteredData_def get_data_def prepare_data_def add_column_def ensure_is_valid_def reset_calculated_fields_def Let_def)

lemma set_data_columns: "''is_valid'' \<in> set (columns (get_data (set_data fd df)))"
  by (simp add: set_data_def get_data_def prepare_data_columns)

lemma set_data_valid:
  "''is_valid'' \<in> set (columns df) \<Longrightarrow>
   map is_valid (rows (get_data (set_data fd df))) = map is_valid (rows df)"
  by (simp add: set_data_def get_data_def prepare_data_valid)

section \<open>Facts about the recomputation\<close>

lemma fle_refl: "a \<noteq> NaN \<Longrightarrow> fle a a"
  by (cases a) simp_all

lemma fle_trans: "fle a b \<Longrightarrow> fle b c \<Longrightarrow> fle a c"
  by (cases a; cases b; cases c) simp_all

lemma not_flt_fle: "a \<noteq> NaN \<Longrightarrow> b \<noteq> NaN \<Longrightarrow> \<not> flt b a \<Longrightarrow> fle a b"
  by (cases a; cases b) simp_all

lemma flt_fle: "flt b a \<Longrightarrow> fle b a"
  by (cases a; cases b) simp_all

lemma fmin_cases: "fmin a b = a \<or> fmin a b = b"
  by (simp add: fmin_def)

lemma fmin_le:
  "a \<noteq> NaN \<Longrightarrow> b \<noteq> NaN \<Longrightarrow> fle (fmin a b) a \<and> fle (fmin a b) b"
  by (simp add: fmin_def fle_refl not_flt_fle flt_fle)

lemma foldl_fmin_min:
  "y \<noteq> NaN \<Longrightarrow> \<forall>x\<in>set ys. x \<noteq> NaN \<Longrightarrow>
   foldl fmin y ys \<in> set (y # ys) \<and> (\<forall>x\<in>set (y # ys). fle (foldl fmin y ys) x)"
proof (induction ys arbitrary: y)
  case Nil
  then show ?case by (simp add: fle_refl)
next
  case (Cons z zs)
  have z: "z \<noteq> NaN" using Cons.prems by simp
  have m: "fmin y z \<noteq> NaN" using fmin_cases[of y z] Cons.prems(1) z by auto
  have zs: "\<forall>x\<in>set zs. x \<noteq> NaN" using Cons.prems(2) by simp
  have IH: "foldl fmin (fmin y z) zs \<in> set (fmin y z # zs) \<and>
            (\<forall>x\<in>set (fmin y z # zs). fle (foldl fmin (fmin y z) zs) x)"
    by (rule Cons.IH[OF m zs])
  have le: "fle (foldl fmin (fmin y z) zs) (fmin y z)" using IH by simp
  have ley: "fle (foldl fmin (fmin y z) zs) y"
    using le fmin_le[OF Cons.prems(1) z] fle_trans by blast
  have lez: "fle (foldl fmin (fmin y z) zs) z"
    using le fmin_le[OF Cons.prems(1) z] fle_trans by blast
  have mem: "foldl fmin (fmin y z) zs \<in> set (y # z # zs)"
    using IH fmin_cases[of y z] by auto
  show ?case using IH ley lez mem by simp
qed


lemma series_min_is_min:
  assumes "\<exists>x\<in>set xs. x \<noteq> NaN"
  shows "series_min xs \<in> set xs \<and> series_min xs \<noteq> NaN \<and>
         (\<forall>x\<in>set xs. x \<noteq> NaN \<longrightarrow> fle (series_min xs) x)"
proof -
  have ne: "filter (\<lambda>x. x \<noteq> NaN) xs \<noteq> []"
    using assms by (simp add: filter_empty_conv)
  then obtain y ys where f: "filter (\<lambda>x. x \<noteq> NaN) xs = y # ys"
    by (cases "filter (\<lambda>x. x \<noteq> NaN) xs") simp_all
  have sub: "set (y # ys) = {x \<in> set xs. x \<noteq> NaN}"
    unfolding f[symmetric] by simp
  have y: "y \<noteq> NaN" using sub by auto
  have ys: "\<forall>x\<in>set ys. x \<noteq> NaN" using sub by auto
  have m: "foldl fmin y ys \<in> set (y # ys) \<and> (\<forall>x\<in>set (y # ys). fle (foldl fmin y ys) x)"
    by (rule foldl_fmin_min[OF y ys])
  have s: "series_min xs = foldl fmin y ys" by (simp add: series_min_def f)
  have a: "series_min xs \<in> {x \<in> set xs. x \<noteq> NaN}"
    using m unfolding s sub[symmetric] by blast
  have b: "\<forall>x\<in>{x \<in> set xs. x \<noteq> NaN}. fle (series_min xs) x"
    using m unfolding s sub[symmetric] by blast
  show ?thesis using a b by simp
qed

lemma series_min_all_nan:
  assumes "\<forall>x\<in>set xs. x = NaN"
  shows "series_min xs = NaN"
proof -
  have "filter (\<lambda>x. x \<noteq> NaN) xs = []" using assms by (simp add: filter_empty_conv)
  then show ?thesis by (simp add: series_min_def)
qed

text \<open>What one recomputation leaves in the table.\<close>

lemma filter_is_valid_reset:
  "filter is_valid (map (\<lambda>r. r\<lparr>relative_timestamp := NaN\<rparr>) rs)
     = map (\<lambda>r. r\<lparr>relative_timestamp := NaN\<rparr>) (filter is_valid rs)"
  by (induction rs) simp_all

lemma reset_rows:
  "rows (reset_calculated_fields df) = map (\<lambda>r. r\<lparr>relative_timestamp := NaN\<rparr>) (rows df)"
  by (simp add: reset_calculated_fields_def)

lemma fill_reset:
  "map (\<lambda>r. if is_valid r then r\<lparr>relative_timestamp := fsub (timestamp r) st\<rparr> else r)
     (map (\<lambda>r. r\<lparr>relative_timestamp := NaN\<rparr>) rs)
   = map (\<lambda>r. if is_valid r then r\<lparr>relative_timestamp := fsub (timestamp r) st\<rparr>
                else r\<lparr>relative_timestamp := NaN\<rparr>) rs"
  by (induction rs) simp_all

lemma none_valid_reset:
  "filter is_valid rs = [] \<Longrightarrow>
   map (\<lambda>r. r\<lparr>relative_timestamp := NaN\<rparr>) rs
   = map (\<lambda>r. if is_valid r then r\<lparr>relative_timestamp := fsub (timestamp r) st\<rparr>
                else r\<lparr>relative_timestamp := NaN\<rparr>) rs"
  by (induction rs) (simp_all split: if_splits)

lemma timestamp_reset_comp:
  "timestamp \<circ> (\<lambda>r. r\<lparr>relative_timestamp := NaN\<rparr>) = timestamp"
  by (simp add: fun_eq_iff)

lemma map_timestamp_reset:
  "map timestamp (map (\<lambda>r. r\<lparr>relative_timestamp := NaN\<rparr>) rs) = map timestamp rs"
  by (induction rs) simp_all

lemma prepare_data_rows:
  "rows (self_data (prepare_data s)) =
     map (\<lambda>r. if is_valid r
               then r\<lparr>relative_timestamp :=
                       fsub (timestamp r)
                         (series_min (map timestamp
                            (filter is_valid (rows (ensure_is_valid (self_data s))))))\<rparr>
               else r\<lparr>relative_timestamp := NaN\<rparr>) (rows (ensure_is_valid (self_data s)))"
proof (cases "filter is_valid (rows (ensure_is_valid (self_data s))) = []")
  case True
  have "rows (self_data (prepare_data s))
          = map (\<lambda>r. r\<lparr>relative_timestamp := NaN\<rparr>) (rows (ensure_is_valid (self_data s)))"
    by (simp add: prepare_data_def Let_def reset_rows filter_is_valid_reset True)
  then show ?thesis using none_valid_reset[OF True] by simp
next
  case False
  then show ?thesis
    by (simp add: prepare_data_def Let_def reset_rows filter_is_valid_reset
          timestamp_reset_comp fill_reset)
qed

lemma prepare_data_start:
  "self_start_timestamp (prepare_data s) =
     (if filter is_valid (rows (ensure_is_valid (self_data s))) = [] then None
      else Some (series_min (map timestamp
                   (filter is_valid (rows (ensure_is_valid (self_data s)))))))"
  by (simp add: prepare_data_def Let_def reset_rows filter_is_valid_reset timestamp_reset_comp)

lemma filter_valid_map:
  assumes "\<And>r. is_valid (g r) = is_valid r"
  shows "filter is_valid (map g rs) = map g (filter is_valid rs)"
  using assms by (induction rs) simp_all

lemma map_timestamp_map:
  assumes "\<And>r. timestamp (g r) = timestamp r"
  shows "map timestamp (map g rs) = map timestamp rs"
  using assms by (induction rs) simp_all

lemma prepare_data_valid_timestamps:
  "map timestamp (filter is_valid (rows (self_data (prepare_data s))))
     = map timestamp (filter is_valid (rows (ensure_is_valid (self_data s))))"
  unfolding prepare_data_rows
  by (subst filter_valid_map) (simp_all add: map_timestamp_map)

lemma prepare_data_none_valid:
  "(filter is_valid (rows (self_data (prepare_data s))) = [])
     = (filter is_valid (rows (ensure_is_valid (self_data s))) = [])"
  unfolding prepare_data_rows
  by (subst filter_valid_map) simp_all

lemma prepare_data_start_after:
  "self_start_timestamp (prepare_data s) =
     (if filter is_valid (rows (self_data (prepare_data s))) = [] then None
      else Some (series_min (map timestamp (filter is_valid (rows (self_data (prepare_data s)))))))"
  by (simp only: prepare_data_start prepare_data_valid_timestamps prepare_data_none_valid)

lemma prepare_data_relative:
  assumes "r \<in> set (rows (self_data (prepare_data s)))"
  shows "relative_timestamp r =
           (if is_valid r
            then fsub (timestamp r)
                   (series_min (map timestamp (filter is_valid (rows (self_data (prepare_data s))))))
            else NaN)"
proof -
  have "r \<in> set (map (\<lambda>r. if is_valid r
               then r\<lparr>relative_timestamp :=
                       fsub (timestamp r)
                         (series_min (map timestamp
                            (filter is_valid (rows (self_data (prepare_data s))))))\<rparr>
               else r\<lparr>relative_timestamp := NaN\<rparr>) (rows (ensure_is_valid (self_data s))))"
    using assms by (simp only: prepare_data_valid_timestamps prepare_data_rows[symmetric])
  then show ?thesis by auto
qed

lemma object_cases:
  assumes "s = FilteredData df uid \<or> s = set_data fd df"
  shows "\<exists>s0. self_data s0 = df \<and> get_data s = self_data (prepare_data s0) \<and>
              get_start_timestamp s = self_start_timestamp (prepare_data s0)"
proof -
  from assms show ?thesis
  proof
    assume a: "s = FilteredData df uid"
    show ?thesis
      by (rule exI[of _ "\<lparr>self_data = df, self_start_timestamp = None, self_user_id = None\<rparr>"])
         (simp add: a FilteredData_def get_data_def get_start_timestamp_def)
  next
    assume a: "s = set_data fd df"
    show ?thesis
      by (rule exI[of _ "fd\<lparr>self_data := df\<rparr>"])
         (simp add: a set_data_def get_data_def get_start_timestamp_def)
  qed
qed

lemma stale_table_after:
  "rows (get_data (set_data empty_object stale_table)) =
     [(raw_row (Fin 12) ''gaze'' (Fin 3) (Fin 3) False),
      (raw_row (Fin 10) ''gaze'' (Fin 3) (Fin 3) True)\<lparr>relative_timestamp := Fin 0\<rparr>,
      (raw_row (Fin 11) ''gaze'' (Fin 3) (Fin 3) True)\<lparr>relative_timestamp := Fin 1\<rparr>]"
  by (simp add: set_data_def get_data_def prepare_data_def add_column_def ensure_is_valid_def
        reset_calculated_fields_def Let_def stale_table_def raw_columns_def raw_row_def empty_object_def
        series_min_def fmin_def fsub_def)

lemma none_valid_table_after:
  "rows (get_data (set_data empty_object none_valid_table)) =
     [raw_row (Fin 12) ''gaze'' (Fin 3) (Fin 3) False]"
  by (simp add: set_data_def get_data_def prepare_data_def add_column_def ensure_is_valid_def
        reset_calculated_fields_def Let_def none_valid_table_def raw_columns_def raw_row_def empty_object_def)

lemma reset_columns:
  "set (columns (reset_calculated_fields df)) = insert ''relative_timestamp'' (set (columns df))"
  by (simp add: reset_calculated_fields_def)

lemma ensure_is_valid_columns:
  "set (columns (ensure_is_valid df)) = insert ''is_valid'' (set (columns df))"
  by (auto simp add: ensure_is_valid_def)

lemma ensure_is_valid_timestamps:
  "map timestamp (rows (ensure_is_valid df)) = map timestamp (rows df)"
  by (simp add: ensure_is_valid_def)

lemma prepare_data_error_free:
  assumes "self_data s0 = df"
    and "''timestamp'' \<in> set (columns df)"
    and "''timestamp_readable'' \<in> set (columns df) \<or> (\<forall>r\<in>set (rows df). to_datetime_ok (timestamp r))"
  shows "prepare_data_error s0 = None"
proof -
  have t: "map timestamp (rows (reset_calculated_fields (ensure_is_valid df))) = map timestamp (rows df)"
    by (simp add: reset_rows ensure_is_valid_timestamps timestamp_reset_comp)
  have c: "''timestamp'' \<in> set (columns (reset_calculated_fields (ensure_is_valid df)))"
    using assms(2) by (simp add: reset_columns ensure_is_valid_columns)
  have r: "''timestamp_readable'' \<in> set (columns df) \<longrightarrow>
           ''timestamp_readable'' \<in> set (columns (reset_calculated_fields (ensure_is_valid df)))"
    by (simp add: reset_columns ensure_is_valid_columns)
  have a: "(\<forall>r\<in>set (rows df). to_datetime_ok (timestamp r)) \<longrightarrow>
           list_all to_datetime_ok (map timestamp (rows df))"
    by (simp add: list_all_iff)
  show ?thesis
    unfolding prepare_data_error_def Let_def assms(1) t
    using c r a assms(3) by auto
qed

section \<open>Applying a pass twice\<close>

lemma map2_mask_idem:
  "length msk = length vs \<Longrightarrow>
   map2 (\<lambda>m v. v \<and> \<not> m) msk (map2 (\<lambda>m v. v \<and> \<not> m) msk vs) = map2 (\<lambda>m v. v \<and> \<not> m) msk vs"
  by (induction msk vs rule: list_induct2) auto

lemma apply_pass_twice_valid:
  assumes "''is_valid'' \<in> set (columns (get_data fd))"
  shows "map is_valid (rows (get_data (apply_pass p (apply_pass p fd))))
           = map is_valid (rows (get_data (apply_pass p fd)))"
proof -
  let ?M = "pass_mask p (rows (get_data fd))"
  let ?V = "map is_valid (rows (get_data fd))"
  have m: "pass_mask p (rows (get_data (apply_pass p fd))) = ?M"
    by (rule pass_mask_raw[OF apply_pass_raw])
  have one: "map is_valid (rows (get_data (apply_pass p fd))) = map2 (\<lambda>m v. v \<and> \<not> m) ?M ?V"
    by (rule apply_pass_valid[OF assms])
  have two: "map is_valid (rows (get_data (apply_pass p (apply_pass p fd))))
               = map2 (\<lambda>m v. v \<and> \<not> m) ?M (map2 (\<lambda>m v. v \<and> \<not> m) ?M ?V)"
    using apply_pass_valid[OF apply_pass_columns, of p p fd] by (simp only: m one)
  show ?thesis
    unfolding two one by (rule map2_mask_idem) simp
qed

section \<open>Evaluating the checkpoint recomputation and the extractor\<close>

lemma prepare_data_ckpt_stages:
  assumes "ensure_is_valid_ckpt (ckpt_data s) = d1"
    and "reset_calculated_fields_ckpt d1 = d2"
    and "filter is_valid (rows d2) = vd"
    and "vd \<noteq> []"
    and "series_min (map timestamp vd) = st"
    and "map (\<lambda>r. r\<lparr>avg_pupildiameter :=
                       fdiv (fadd (eyeleft_pupildiameter r) (eyeright_pupildiameter r)) (Fin 2)\<rparr>)
           (map (\<lambda>r. if is_valid r then r\<lparr>relative_timestamp := fsub (timestamp r) st\<rparr> else r)
              (rows d2)) = r4"
    and "std_pupil_list vd = sl"
    and "loc_valid_assign (\<lambda>r v. r\<lparr>std_pupildiameter := v\<rparr>) sl r4 = r5"
    and "smooth_avg_pupildiameter (Fin (3 / 10))
           (d2\<lparr>rows := r5, columns := add_column ''timestamp_readable'' (columns d2)\<rparr>) = d6"
  shows "prepare_data_ckpt s = s\<lparr>ckpt_data := d6, ckpt_start_timestamp := Some st\<rparr>"
  unfolding prepare_data_ckpt_def Let_def using assms by simp

lemma smooth_stages:
  assumes "map (\<lambda>r. r\<lparr>avg_pupildiameter_smooth := NaN\<rparr>) (sort_values_timestamp (rows df)) = srt"
    and "smoothed_values w (filter is_valid srt) = sv"
    and "loc_valid_assign (\<lambda>r v. r\<lparr>avg_pupildiameter_smooth := v\<rparr>) sv srt = out"
    and "List.insert ''avg_pupildiameter_smooth'' (columns df) = cols"
  shows "smooth_avg_pupildiameter w df = \<lparr>rows = out, columns = cols\<rparr>"
  unfolding smooth_avg_pupildiameter_def Let_def using assms by simp


lemmas stage_eval =
  ensure_is_valid_ckpt_def reset_calculated_fields_ckpt_def create_if_absent_def
  add_column_def series_min_def fmin_def std_pupil_list_def smoothed_values_def sort_values_timestamp_def
  timestamp_before_def np_std_def fmean_def fsum_def fsub_def fge_def fgt_def Let_def

lemmas example_rows =
  raw_row_ckpt_def gaze_row_ckpt_def all_columns_def raw_columns_def new_object_ckpt_def

lemma std_table_after:
  "prepare_data_ckpt (new_object_ckpt std_table) =
     (new_object_ckpt std_table)
     \<lparr>ckpt_data :=
        \<lparr>rows = [gaze_row_ckpt (Fin 100) (Fin 2) True (Fin 0) (Fin 2) NaN (Fin 3),
                 gaze_row_ckpt (Fin (100 + 1 / 4)) (Fin 4) True (Fin (1 / 4)) (Fin 4) NaN (Fin 3)],
         columns = all_columns\<rparr>,
      ckpt_start_timestamp := Some (Fin 100)\<rparr>"
  apply (rule prepare_data_ckpt_stages)
          apply (simp add: stage_eval example_rows std_table_def)
         apply (simp add: stage_eval)
        apply (simp add: stage_eval)
       apply (simp add: stage_eval)
      apply (simp add: stage_eval)
     apply (simp add: stage_eval)
    apply (simp add: stage_eval)
   apply (simp add: stage_eval)
  apply (simp add: example_rows)
  apply (rule smooth_stages)
     apply (simp add: stage_eval)
    apply (simp add: stage_eval)
   apply (simp add: stage_eval)
  apply (simp add: stage_eval)
  done

lemma phase_table_after:
  "prepare_data_ckpt (new_object_ckpt phase_table) =
     (new_object_ckpt phase_table)
     \<lparr>ckpt_data :=
        \<lparr>rows = [gaze_row_ckpt (Fin 1000) (Fin 3) True (Fin 0) (Fin 3) NaN (Fin 3),
                 gaze_row_ckpt (Fin 1040) (Fin 4) True (Fin 40) (Fin 4) NaN (Fin 4),
                 gaze_row_ckpt (Fin 1060) (Fin 5) True (Fin 60) (Fin 5) NaN (Fin 5),
                 gaze_row_ckpt (Fin 1100) (Fin 7) True (Fin 100) (Fin 7) NaN (Fin 7)],
         columns = all_columns\<rparr>,
      ckpt_start_timestamp := Some (Fin 1000)\<rparr>"
  apply (rule prepare_data_ckpt_stages)
          apply (simp add: stage_eval example_rows phase_table_def)
         apply (simp add: stage_eval)
        apply (simp add: stage_eval)
       apply (simp add: stage_eval)
      apply (simp add: stage_eval)
     apply (simp add: stage_eval)
    apply (simp add: stage_eval)
   apply (simp add: stage_eval)
  apply (simp add: example_rows)
  apply (rule smooth_stages)
     apply (simp add: stage_eval)
    apply (simp add: stage_eval)
   apply (simp add: stage_eval)
  apply (simp add: stage_eval)
  done

lemma fle_not_nan: "fle a b \<Longrightarrow> a \<noteq> NaN \<and> b \<noteq> NaN"
  by (cases a; cases b) simp_all

lemma argmax_from_none:
  "(argmax_from i best xs = None) = (best = None \<and> (\<forall>x\<in>set xs. x = NaN))"
  by (induction xs arbitrary: i best) (auto split: option.splits)

lemma argmax_from_some:
  assumes "argmax_from i best xs = Some (k, v)"
    and "\<forall>j y. best = Some (j, y) \<longrightarrow> y \<noteq> NaN"
  shows "(best = Some (k, v) \<or> (i \<le> k \<and> k < i + length xs \<and> xs ! (k - i) = v)) \<and>
         v \<noteq> NaN \<and>
         (\<forall>x\<in>set xs. x = NaN \<or> fle x v) \<and>
         (\<forall>j y. best = Some (j, y) \<longrightarrow> fle y v)"
  using assms
proof (induction xs arbitrary: i best)
  case Nil
  then show ?case by (auto simp: fle_refl)
next
  case (Cons x xs)
  let ?b = "(if x = NaN then best
             else case best of None \<Rightarrow> Some (i, x)
                  | Some (j, y) \<Rightarrow> if flt y x then Some (i, x) else Some (j, y))"
  have run: "argmax_from (Suc i) ?b xs = Some (k, v)"
    using Cons.prems(1) by simp
  have inv: "\<forall>j y. ?b = Some (j, y) \<longrightarrow> y \<noteq> NaN"
    using Cons.prems(2) by (auto split: option.splits if_splits)
  note IH = Cons.IH[OF run inv]
  have v: "v \<noteq> NaN" using IH by blast
  have tail: "\<forall>z\<in>set xs. z = NaN \<or> fle z v" using IH by blast
  have bv: "\<forall>j y. ?b = Some (j, y) \<longrightarrow> fle y v" using IH by blast
  have pos: "?b = Some (k, v) \<or> (Suc i \<le> k \<and> k < Suc i + length xs \<and> xs ! (k - Suc i) = v)"
    using IH by blast
  have xle: "x = NaN \<or> fle x v"
  proof (cases "x = NaN")
    case True then show ?thesis by simp
  next
    case False
    show ?thesis
    proof (cases best)
      case None
      then show ?thesis using bv False by simp
    next
      case (Some p)
      obtain j y where p: "p = (j, y)" by (cases p)
      have y: "y \<noteq> NaN" using Cons.prems(2) Some p by blast
      show ?thesis
      proof (cases "flt y x")
        case True
        then show ?thesis using bv False Some p by simp
      next
        case nf: False
        have "fle y v" using bv False Some p nf by simp
        moreover have "fle x y" using nf False y by (rule_tac not_flt_fle) auto
        ultimately show ?thesis using fle_trans by blast
      qed
    qed
  qed
  have ble: "\<forall>j y. best = Some (j, y) \<longrightarrow> fle y v"
  proof (intro allI impI)
    fix j y assume b: "best = Some (j, y)"
    have y: "y \<noteq> NaN" using Cons.prems(2) b by blast
    show "fle y v"
    proof (cases "x = NaN \<or> \<not> flt y x")
      case True
      then have "?b = Some (j, y)" using b by auto
      then show ?thesis using bv by blast
    next
      case False
      then have "?b = Some (i, x)" and "flt y x" using b by auto
      then have "fle x v" "fle y x" using bv flt_fle by blast+
      then show ?thesis using fle_trans by blast
    qed
  qed
  have where_: "best = Some (k, v) \<or> (i \<le> k \<and> k < i + length (x # xs) \<and> (x # xs) ! (k - i) = v)"
  proof -
    from pos show ?thesis
    proof
      assume e: "?b = Some (k, v)"
      show ?thesis
      proof (cases "best = Some (k, v)")
        case True then show ?thesis by simp
      next
        case False
        then have "k = i \<and> v = x"
          using e by (auto split: option.splits if_splits)
        then show ?thesis by simp
      qed
    next
      assume a: "Suc i \<le> k \<and> k < Suc i + length xs \<and> xs ! (k - Suc i) = v"
      then have "k - i = Suc (k - Suc i)" by arith
      then show ?thesis using a by simp
    qed
  qed
  show ?case using where_ v xle tail ble by simp
qed

lemma idxmax_some:
  assumes "idxmax xs = Some k"
  shows "k < length xs \<and> xs ! k \<noteq> NaN \<and> (\<forall>x\<in>set xs. x = NaN \<or> fle x (xs ! k))"
proof -
  obtain v where a: "argmax_from 0 None xs = Some (k, v)"
    using assms by (auto simp: idxmax_def)
  show ?thesis using argmax_from_some[OF a] by simp
qed

lemma idxmax_none: "(idxmax xs = None) = (\<forall>x\<in>set xs. x = NaN)"
  by (simp add: idxmax_def argmax_from_none)

lemma fsub_self_fin: "fsub (Fin e) (Fin e) = Fin 0"
  by (simp add: fsub_def)

lemma fdiv_top_by_zero:
  assumes "vp \<noteq> NaN" and "ve = NaN \<or> fle ve vp"
  shows "fdiv (fsub vp ve) (Fin 0) = (if ve = NaN \<or> ve = vp then NaN else PInf)"
  using assms by (cases vp; cases ve) (auto simp: fsub_def)

lemma segment_relative_not_nan:
  "r \<in> set (segment df t0 t1) \<Longrightarrow> relative_timestamp r \<noteq> NaN"
  by (auto simp: segment_def fge_def dest: fle_not_nan)


lemma phase_data:
  "get_data_ckpt (FilteredData_ckpt phase_table (Some 704)) =
     \<lparr>rows = [gaze_row_ckpt (Fin 1000) (Fin 3) True (Fin 0) (Fin 3) NaN (Fin 3),
              gaze_row_ckpt (Fin 1040) (Fin 4) True (Fin 40) (Fin 4) NaN (Fin 4),
              gaze_row_ckpt (Fin 1060) (Fin 5) True (Fin 60) (Fin 5) NaN (Fin 5),
              gaze_row_ckpt (Fin 1100) (Fin 7) True (Fin 100) (Fin 7) NaN (Fin 7)],
      columns = all_columns\<rparr>"
  by (simp add: FilteredData_ckpt_def get_data_ckpt_def phase_table_after[unfolded new_object_ckpt_def])

lemma phase_ranges_loaded: "load_time_ranges phase_timings ''704'' = Inr phase_ranges"
  by (simp add: load_time_ranges_def phase_timings_def phase_ranges_def)

lemma phase_ranges_keys:
  "phase_ranges ''Positive'' = Some (Fin 30, Fin 60)"
  "phase_ranges ''Negative'' = Some (Fin 90, Fin 120)"
  "phase_ranges ''negative'' = None"
  by (simp_all add: phase_ranges_def phase_entries_def)

lemma phase_segments:
  "segment (get_data_ckpt (FilteredData_ckpt phase_table (Some 704))) (Fin 30) (Fin 60) =
     [gaze_row_ckpt (Fin 1040) (Fin 4) True (Fin 40) (Fin 4) NaN (Fin 4),
      gaze_row_ckpt (Fin 1060) (Fin 5) True (Fin 60) (Fin 5) NaN (Fin 5)]"
  "segment (get_data_ckpt (FilteredData_ckpt phase_table (Some 704))) (Fin 90) (Fin 120) =
     [gaze_row_ckpt (Fin 1100) (Fin 7) True (Fin 100) (Fin 7) NaN (Fin 7)]"
  by (simp_all add: phase_data segment_def gaze_row_ckpt_def fge_def)

lemma phase_peaks:
  "idxmax (map avg_pupildiameter_smooth
     (segment (get_data_ckpt (FilteredData_ckpt phase_table (Some 704))) (Fin 30) (Fin 60))) = Some 1"
  "idxmax (map relative_timestamp
     (segment (get_data_ckpt (FilteredData_ckpt phase_table (Some 704))) (Fin 30) (Fin 60))) = Some 1"
  "idxmax (map avg_pupildiameter_smooth
     (segment (get_data_ckpt (FilteredData_ckpt phase_table (Some 704))) (Fin 90) (Fin 120))) = Some 0"
  by (simp_all add: phase_segments idxmax_def gaze_row_ckpt_def)


lemma std_data:
  "rows (get_data_ckpt (FilteredData_ckpt std_table (Some 704))) =
     [gaze_row_ckpt (Fin 100) (Fin 2) True (Fin 0) (Fin 2) NaN (Fin 3),
      gaze_row_ckpt (Fin (100 + 1 / 4)) (Fin 4) True (Fin (1 / 4)) (Fin 4) NaN (Fin 3)]"
  by (simp add: FilteredData_ckpt_def get_data_ckpt_def std_table_after[unfolded new_object_ckpt_def])

section \<open>The speed filter and the outlier filter applied twice\<close>

lemma prepare_data_ckpt_eval:
  assumes "ensure_is_valid_ckpt (ckpt_data s) = d1"
    and "reset_calculated_fields_ckpt d1 = d2"
    and "filter is_valid (rows d2) = vd"
    and "vd \<noteq> []"
    and "series_min (map timestamp vd) = st"
    and "map (\<lambda>r. r\<lparr>avg_pupildiameter :=
                       fdiv (fadd (eyeleft_pupildiameter r) (eyeright_pupildiameter r)) (Fin 2)\<rparr>)
           (map (\<lambda>r. if is_valid r then r\<lparr>relative_timestamp := fsub (timestamp r) st\<rparr> else r)
              (rows d2)) = r4"
    and "std_pupil_list vd = sl"
    and "loc_valid_assign (\<lambda>r v. r\<lparr>std_pupildiameter := v\<rparr>) sl r4 = r5"
    and "map (\<lambda>r. r\<lparr>avg_pupildiameter_smooth := NaN\<rparr>) (sort_values_timestamp r5) = srt"
    and "smoothed_values (Fin (3 / 10)) (filter is_valid srt) = sv"
    and "loc_valid_assign (\<lambda>r v. r\<lparr>avg_pupildiameter_smooth := v\<rparr>) sv srt = out"
    and "List.insert ''avg_pupildiameter_smooth'' (add_column ''timestamp_readable'' (columns d2)) = cols"
  shows "prepare_data_ckpt s =
           s\<lparr>ckpt_data := \<lparr>rows = out, columns = cols\<rparr>, ckpt_start_timestamp := Some st\<rparr>"
  unfolding prepare_data_ckpt_def smooth_avg_pupildiameter_def Let_def using assms by simp

lemma prepare_data_ckpt_eval_none_valid:
  assumes "ensure_is_valid_ckpt (ckpt_data s) = d1"
    and "reset_calculated_fields_ckpt d1 = d2"
    and "filter is_valid (rows d2) = []"
    and "map (\<lambda>r. r\<lparr>std_pupildiameter := NaN\<rparr>)
           (map (\<lambda>r. r\<lparr>avg_pupildiameter :=
                       fdiv (fadd (eyeleft_pupildiameter r) (eyeright_pupildiameter r)) (Fin 2)\<rparr>)
              (rows d2)) = r5"
    and "map (\<lambda>r. r\<lparr>avg_pupildiameter_smooth := NaN\<rparr>) (sort_values_timestamp r5) = srt"
    and "filter is_valid srt = []"
    and "List.insert ''avg_pupildiameter_smooth'' (add_column ''timestamp_readable'' (columns d2)) = cols"
  shows "prepare_data_ckpt s =
           s\<lparr>ckpt_data := \<lparr>rows = srt, columns = cols\<rparr>, ckpt_start_timestamp := None\<rparr>"
proof -
  have l: "loc_valid_assign (\<lambda>r v. r\<lparr>avg_pupildiameter_smooth := v\<rparr>) [] srt = srt"
    by (cases srt) simp_all
  show ?thesis
    unfolding prepare_data_ckpt_def smooth_avg_pupildiameter_def Let_def
    using assms l by (simp add: smoothed_values_def)
qed


lemmas speed_rows = speed_rows0_def speed_rows1_def speed_rows2_def

lemma speed_state0:
  "FilteredData_ckpt speed_table (Some 704) =
     \<lparr>ckpt_data = \<lparr>rows = speed_rows0, columns = all_columns\<rparr>,
      ckpt_start_timestamp = Some (Fin 200), ckpt_user_id = Some 704\<rparr>"
proof -
  have "prepare_data_ckpt (new_object_ckpt speed_table) =
     (new_object_ckpt speed_table)
       \<lparr>ckpt_data := \<lparr>rows = speed_rows0, columns = all_columns\<rparr>,
        ckpt_start_timestamp := Some (Fin 200)\<rparr>"
    apply (rule prepare_data_ckpt_eval)
               apply (simp add: stage_eval example_rows speed_table_def)
              apply (simp add: stage_eval example_rows speed_rows)+
    done
  then show ?thesis
    by (simp add: FilteredData_ckpt_def new_object_ckpt_def)
qed


lemma speed_marks0:
  "speed_marks (Fin 5) (filter is_valid speed_rows0) = [False, True, True, False]"
  by (simp add: speed_rows0_def gaze_row_ckpt_def speed_marks_def speed_exceeds_def
        fsub_def fgt_def Let_def)

lemma speed_marks1:
  "speed_marks (Fin 5) (filter is_valid speed_rows1) = [True, True]"
  by (simp add: speed_rows1_def gaze_row_ckpt_def speed_marks_def speed_exceeds_def
        fsub_def fgt_def Let_def)

lemma speed_state1:
  "filter_pupil_speed (FilteredData_ckpt speed_table (Some 704)) (Fin 5) =
     Inr \<lparr>ckpt_data = \<lparr>rows = speed_rows1, columns = all_columns\<rparr>,
          ckpt_start_timestamp = Some (Fin 200), ckpt_user_id = Some 704\<rparr>"
proof -
  let ?s0 = "\<lparr>ckpt_data = \<lparr>rows = speed_rows0, columns = all_columns\<rparr>,
      ckpt_start_timestamp = Some (Fin 200), ckpt_user_id = Some 704\<rparr>"
  let ?df = "\<lparr>rows = loc_valid_assign (\<lambda>r m. if m then r\<lparr>is_valid := False\<rparr> else r)
                       [False, True, True, False] speed_rows0,
              columns = all_columns\<rparr>"
  have p: "prepare_data_ckpt (?s0\<lparr>ckpt_data := ?df\<rparr>) =
     (?s0\<lparr>ckpt_data := ?df\<rparr>)
       \<lparr>ckpt_data := \<lparr>rows = speed_rows1, columns = all_columns\<rparr>,
        ckpt_start_timestamp := Some (Fin 200)\<rparr>"
    apply (rule prepare_data_ckpt_eval)
               apply (simp add: stage_eval example_rows speed_rows)+
    done
  show ?thesis
    unfolding speed_state0 filter_pupil_speed_def Let_def get_data_ckpt_def set_data_ckpt_def
    using p by (simp add: speed_marks0 all_columns_def raw_columns_def)
qed

lemma speed_state2:
  "filter_pupil_speed \<lparr>ckpt_data = \<lparr>rows = speed_rows1, columns = all_columns\<rparr>,
          ckpt_start_timestamp = Some (Fin 200), ckpt_user_id = Some 704\<rparr> (Fin 5) =
     Inr \<lparr>ckpt_data = \<lparr>rows = speed_rows2, columns = all_columns\<rparr>,
          ckpt_start_timestamp = None, ckpt_user_id = Some 704\<rparr>"
proof -
  let ?s1 = "\<lparr>ckpt_data = \<lparr>rows = speed_rows1, columns = all_columns\<rparr>,
      ckpt_start_timestamp = Some (Fin 200), ckpt_user_id = Some 704\<rparr>"
  let ?df = "\<lparr>rows = loc_valid_assign (\<lambda>r m. if m then r\<lparr>is_valid := False\<rparr> else r)
                       [True, True] speed_rows1,
              columns = all_columns\<rparr>"
  have p: "prepare_data_ckpt (?s1\<lparr>ckpt_data := ?df\<rparr>) =
     (?s1\<lparr>ckpt_data := ?df\<rparr>)
       \<lparr>ckpt_data := \<lparr>rows = speed_rows2, columns = all_columns\<rparr>,
        ckpt_start_timestamp := None\<rparr>"
    apply (rule prepare_data_ckpt_eval_none_valid)
          apply (simp add: stage_eval example_rows speed_rows)+
    done
  show ?thesis
    unfolding filter_pupil_speed_def Let_def get_data_ckpt_def set_data_ckpt_def
    using p by (simp add: speed_marks1 all_columns_def raw_columns_def)
qed

lemmas outlier_rows = outlier_rows0_def outlier_rows1_def outlier_rows2_def outlier_rows3_def

lemma outlier_state0:
  "FilteredData_ckpt outlier_table (Some 704) = outlier_state outlier_rows0"
proof -
  have "prepare_data_ckpt (new_object_ckpt outlier_table) =
     (new_object_ckpt outlier_table)
       \<lparr>ckpt_data := \<lparr>rows = outlier_rows0, columns = all_columns\<rparr>,
        ckpt_start_timestamp := Some (Fin 300)\<rparr>"
    apply (rule prepare_data_ckpt_eval)
               apply (simp add: stage_eval example_rows outlier_table_def)
              apply (simp add: stage_eval example_rows outlier_rows)+
    done
  then show ?thesis
    by (simp add: FilteredData_ckpt_def new_object_ckpt_def outlier_state_def)
qed

lemma outlier_speed_marks:
  "speed_marks (Fin 5) (filter is_valid outlier_rows0) = [False, False, False, False, False]"
  by (simp add: outlier_rows0_def gaze_row_ckpt_def speed_marks_def speed_exceeds_def
        fsub_def fgt_def Let_def)

lemma outlier_state1:
  "filter_pupil_speed (outlier_state outlier_rows0) (Fin 5) = Inr (outlier_state outlier_rows1)"
proof -
  let ?df = "\<lparr>rows = loc_valid_assign (\<lambda>r m. if m then r\<lparr>is_valid := False\<rparr> else r)
                       [False, False, False, False, False] outlier_rows0,
              columns = all_columns\<rparr>"
  have p: "prepare_data_ckpt ((outlier_state outlier_rows0)\<lparr>ckpt_data := ?df\<rparr>) =
     ((outlier_state outlier_rows0)\<lparr>ckpt_data := ?df\<rparr>)
       \<lparr>ckpt_data := \<lparr>rows = outlier_rows1, columns = all_columns\<rparr>,
        ckpt_start_timestamp := Some (Fin 300)\<rparr>"
    apply (rule prepare_data_ckpt_eval)
               apply (simp add: stage_eval example_rows outlier_rows outlier_state_def)+
    done
  show ?thesis
    unfolding filter_pupil_speed_def Let_def get_data_ckpt_def set_data_ckpt_def
    using p by (simp add: outlier_speed_marks all_columns_def raw_columns_def outlier_state_def)
qed

lemmas outlier_eval =
  std_outlier_mask_def nanmean_def nanstd_def np_std_def fmean_def fsum_def
  fsub_def fge_def Let_def gaze_row_ckpt_def

lemma outlier_mask1:
  "std_outlier_mask (Fin 1) (Fin 2) (filter is_valid outlier_rows1)
     = [False, False, False, True, True]"
  by (simp add: outlier_rows1_def outlier_eval)

lemma outlier_mask2:
  "std_outlier_mask (Fin 1) (Fin 2) (filter is_valid outlier_rows2) = [False, False, True]"
  by (simp add: outlier_rows2_def outlier_eval)


lemma outlier_state2:
  "filter_by_std_outliers (outlier_state outlier_rows1) (Fin 1) (Fin 2)
     = Inr (outlier_state outlier_rows2)"
proof -
  let ?df = "\<lparr>rows = loc_valid_assign (\<lambda>r m. if m then r\<lparr>is_valid := False\<rparr> else r)
                       [False, False, False, True, True] outlier_rows1,
              columns = all_columns\<rparr>"
  have p: "prepare_data_ckpt ((outlier_state outlier_rows1)\<lparr>ckpt_data := ?df\<rparr>) =
     ((outlier_state outlier_rows1)\<lparr>ckpt_data := ?df\<rparr>)
       \<lparr>ckpt_data := \<lparr>rows = outlier_rows2, columns = all_columns\<rparr>,
        ckpt_start_timestamp := Some (Fin 300)\<rparr>"
    apply (rule prepare_data_ckpt_eval)
               apply (simp add: stage_eval example_rows outlier_rows outlier_state_def)+
    done
  show ?thesis
    unfolding filter_by_std_outliers_def Let_def get_data_ckpt_def set_data_ckpt_def
    using p by (simp add: outlier_mask1 all_columns_def raw_columns_def outlier_state_def)
qed

lemma outlier_state3:
  "filter_by_std_outliers (outlier_state outlier_rows2) (Fin 1) (Fin 2)
     = Inr (outlier_state outlier_rows3)"
proof -
  let ?df = "\<lparr>rows = loc_valid_assign (\<lambda>r m. if m then r\<lparr>is_valid := False\<rparr> else r)
                       [False, False, True] outlier_rows2,
              columns = all_columns\<rparr>"
  have p: "prepare_data_ckpt ((outlier_state outlier_rows2)\<lparr>ckpt_data := ?df\<rparr>) =
     ((outlier_state outlier_rows2)\<lparr>ckpt_data := ?df\<rparr>)
       \<lparr>ckpt_data := \<lparr>rows = outlier_rows3, columns = all_columns\<rparr>,
        ckpt_start_timestamp := Some (Fin 300)\<rparr>"
    apply (rule prepare_data_ckpt_eval)
               apply (simp add: stage_eval example_rows outlier_rows outlier_state_def)+
    done
  show ?thesis
    unfolding filter_by_std_outliers_def Let_def get_data_ckpt_def set_data_ckpt_def
    using p by (simp add: outlier_mask2 all_columns_def raw_columns_def outlier_state_def)
qed

section \<open>The recomputation of the snapshot keeps the flags and the order\<close>

lemma fle_total: "a \<noteq> NaN \<Longrightarrow> b \<noteq> NaN \<Longrightarrow> fle a b \<or> fle b a"
  by (cases a; cases b) auto

lemma timestamp_before_total: "timestamp_before a b \<or> timestamp_before b a"
  using fle_total[of a b] by (auto simp: timestamp_before_def)

lemma timestamp_before_trans:
  "timestamp_before a b \<Longrightarrow> timestamp_before b c \<Longrightarrow> timestamp_before a c"
  unfolding timestamp_before_def
  using fle_trans fle_not_nan by blast

lemma set_insort_timestamp: "set (insort_timestamp r xs) = insert r (set xs)"
  by (induction xs) auto

lemma timestamp_ordered_insort:
  "timestamp_ordered xs \<Longrightarrow> timestamp_ordered (insort_timestamp r xs)"
proof (induction xs)
  case Nil
  then show ?case by (simp add: timestamp_ordered_def)
next
  case (Cons x xs)
  have tail: "timestamp_ordered xs" using Cons.prems by (simp add: timestamp_ordered_def)
  have xall: "\<forall>y\<in>set xs. timestamp_before (timestamp x) (timestamp y)"
    using Cons.prems by (simp add: timestamp_ordered_def)
  show ?case
  proof (cases "timestamp_before (timestamp r) (timestamp x)")
    case True
    then have "\<forall>y\<in>set xs. timestamp_before (timestamp r) (timestamp y)"
      using xall timestamp_before_trans by blast
    then show ?thesis using True Cons.prems by (simp add: timestamp_ordered_def)
  next
    case False
    then have xr: "timestamp_before (timestamp x) (timestamp r)"
      using timestamp_before_total by blast
    have "timestamp_ordered (insort_timestamp r xs)" by (rule Cons.IH[OF tail])
    then show ?thesis
      using False xr xall by (simp add: timestamp_ordered_def set_insort_timestamp)
  qed
qed

lemma timestamp_ordered_sort: "timestamp_ordered (sort_values_timestamp rs)"
  unfolding sort_values_timestamp_def
  by (induction rs) (simp_all add: timestamp_ordered_insort, simp add: timestamp_ordered_def)

lemma insort_timestamp_first:
  "\<forall>y\<in>set xs. timestamp_before (timestamp r) (timestamp y) \<Longrightarrow> insort_timestamp r xs = r # xs"
  by (cases xs) simp_all

lemma sort_values_timestamp_id:
  "timestamp_ordered rs \<Longrightarrow> sort_values_timestamp rs = rs"
proof (induction rs)
  case Nil
  then show ?case by (simp add: sort_values_timestamp_def)
next
  case (Cons r rs)
  have tail: "timestamp_ordered rs" using Cons.prems by (simp add: timestamp_ordered_def)
  have all: "\<forall>y\<in>set rs. timestamp_before (timestamp r) (timestamp y)"
    using Cons.prems by (simp add: timestamp_ordered_def)
  have "sort_values_timestamp (r # rs) = insort_timestamp r (sort_values_timestamp rs)"
    by (simp add: sort_values_timestamp_def)
  also have "\<dots> = insort_timestamp r rs" using Cons.IH[OF tail] by simp
  also have "\<dots> = r # rs" by (rule insort_timestamp_first[OF all])
  finally show ?case .
qed

lemma timestamp_ordered_map:
  "timestamp_ordered xs = sorted_wrt timestamp_before (map timestamp xs)"
  by (simp add: timestamp_ordered_def sorted_wrt_map)

lemma timestamp_ordered_cong:
  assumes "map timestamp xs = map timestamp ys"
  shows "timestamp_ordered xs = timestamp_ordered ys"
  by (simp add: timestamp_ordered_map assms)

lemma kv_fields:
  "map timestamp rs = map fst (map kv rs)"
  "map is_valid rs = map snd (map kv rs)"
  by (simp_all add: kv_def)

lemma loc_valid_assign_length [simp]:
  "length (loc_valid_assign upd vs rs) = length rs"
  by (induction upd vs rs rule: loc_valid_assign.induct) simp_all

lemma loc_valid_assign_kv:
  assumes "\<And>r v. kv (upd r v) = kv r"
  shows "map kv (loc_valid_assign upd vs rs) = map kv rs"
  using assms by (induction upd vs rs rule: loc_valid_assign.induct) simp_all

lemma loc_valid_assign_timestamp:
  assumes "\<And>r v. timestamp (upd r v) = timestamp r"
  shows "map timestamp (loc_valid_assign upd vs rs) = map timestamp rs"
  using assms by (induction upd vs rs rule: loc_valid_assign.induct) simp_all

lemma loc_valid_assign_clear:
  "list_all2 (\<lambda>old new. is_valid new \<longrightarrow> is_valid old) rs
     (loc_valid_assign (\<lambda>r m. if m then r\<lparr>is_valid := False\<rparr> else r) ms rs)"
  by (induction "(\<lambda>r m. if m then r\<lparr>is_valid := False\<rparr> else r) :: sample_ckpt \<Rightarrow> bool \<Rightarrow> sample_ckpt"
        ms rs rule: loc_valid_assign.induct)
     (simp_all add: list_all2_same)

lemma create_if_absent_kv:
  assumes "\<And>r. kv (f r) = kv r"
  shows "map kv (rows (create_if_absent c f df)) = map kv (rows df)"
  using assms by (simp add: create_if_absent_def)

lemma reset_ckpt_kv: "map kv (rows (reset_calculated_fields_ckpt df)) = map kv (rows df)"
  by (simp add: reset_calculated_fields_ckpt_def create_if_absent_kv kv_def)

lemma create_if_absent_columns:
  "set (columns (create_if_absent c f df)) = insert c (set (columns df))"
  by (auto simp: create_if_absent_def)

lemma reset_ckpt_columns:
  "set (columns (reset_calculated_fields_ckpt df)) =
     {''relative_timestamp'', ''avg_pupildiameter'', ''std_pupildiameter'',
      ''avg_pupildiameter_smooth''} \<union> set (columns df)"
  by (auto simp add: reset_calculated_fields_ckpt_def create_if_absent_columns)

lemma ensure_ckpt_columns:
  "set (columns (ensure_is_valid_ckpt df)) = insert ''is_valid'' (set (columns df))"
  by (auto simp: ensure_is_valid_ckpt_def)

lemma ensure_ckpt_rows:
  "''is_valid'' \<in> set (columns df) \<Longrightarrow> rows (ensure_is_valid_ckpt df) = rows df"
  by (simp add: ensure_is_valid_ckpt_def)

lemma ensure_ckpt_timestamp:
  "map timestamp (rows (ensure_is_valid_ckpt df)) = map timestamp (rows df)"
  by (simp add: ensure_is_valid_ckpt_def)


lemma prepare_ckpt_shape:
  "\<exists>r5 vs. map kv r5 = map kv (rows (ensure_is_valid_ckpt (ckpt_data s))) \<and>
      rows (ckpt_data (prepare_data_ckpt s)) =
        loc_valid_assign (\<lambda>r v. r\<lparr>avg_pupildiameter_smooth := v\<rparr>) vs
          (map (\<lambda>r. r\<lparr>avg_pupildiameter_smooth := NaN\<rparr>) (sort_values_timestamp r5))"
proof -
  let ?d2 = "reset_calculated_fields_ckpt (ensure_is_valid_ckpt (ckpt_data s))"
  let ?vd = "filter is_valid (rows ?d2)"
  let ?r3 = "(case (if ?vd \<noteq> [] then Some (series_min (map timestamp ?vd)) else None) of
               Some st \<Rightarrow> map (\<lambda>r. if is_valid r
                                    then r\<lparr>relative_timestamp := fsub (timestamp r) st\<rparr>
                                    else r) (rows ?d2)
             | None \<Rightarrow> rows ?d2)"
  let ?r4 = "map (\<lambda>r. r\<lparr>avg_pupildiameter :=
                        fdiv (fadd (eyeleft_pupildiameter r) (eyeright_pupildiameter r)) (Fin 2)\<rparr>) ?r3"
  let ?r5 = "(if ?vd \<noteq> []
              then loc_valid_assign (\<lambda>r v. r\<lparr>std_pupildiameter := v\<rparr>) (std_pupil_list ?vd) ?r4
              else map (\<lambda>r. r\<lparr>std_pupildiameter := NaN\<rparr>) ?r4)"
  have k3: "map kv ?r3 = map kv (rows ?d2)"
    by (simp add: kv_def)
  have k4: "map kv ?r4 = map kv ?r3"
    by (simp add: kv_def)
  have k5: "map kv ?r5 = map kv ?r4"
    by (simp add: loc_valid_assign_kv kv_def)
  have k: "map kv ?r5 = map kv (rows (ensure_is_valid_ckpt (ckpt_data s)))"
    using k3 k4 k5 reset_ckpt_kv by simp
  have r: "rows (ckpt_data (prepare_data_ckpt s)) =
        loc_valid_assign (\<lambda>r v. r\<lparr>avg_pupildiameter_smooth := v\<rparr>)
          (smoothed_values (Fin (3 / 10))
             (filter is_valid (map (\<lambda>r. r\<lparr>avg_pupildiameter_smooth := NaN\<rparr>) (sort_values_timestamp ?r5))))
          (map (\<lambda>r. r\<lparr>avg_pupildiameter_smooth := NaN\<rparr>) (sort_values_timestamp ?r5))"
    by (simp add: prepare_data_ckpt_def smooth_avg_pupildiameter_def Let_def)
  show ?thesis using k r by blast
qed


lemma prepare_ckpt_columns:
  "set (columns (ckpt_data (prepare_data_ckpt s))) =
     {''is_valid'', ''relative_timestamp'', ''avg_pupildiameter'', ''std_pupildiameter'',
      ''avg_pupildiameter_smooth'', ''timestamp_readable''} \<union> set (columns (ckpt_data s))"
  by (auto simp add: prepare_data_ckpt_def smooth_avg_pupildiameter_def Let_def add_column_def
        reset_ckpt_columns ensure_ckpt_columns)

lemma prepare_ckpt_timestamps:
  "\<exists>r5. map kv r5 = map kv (rows (ensure_is_valid_ckpt (ckpt_data s))) \<and>
         map kv (rows (ckpt_data (prepare_data_ckpt s))) = map kv (sort_values_timestamp r5)"
proof -
  obtain r5 vs where k: "map kv r5 = map kv (rows (ensure_is_valid_ckpt (ckpt_data s)))"
    and r: "rows (ckpt_data (prepare_data_ckpt s)) =
        loc_valid_assign (\<lambda>r v. r\<lparr>avg_pupildiameter_smooth := v\<rparr>) vs
          (map (\<lambda>r. r\<lparr>avg_pupildiameter_smooth := NaN\<rparr>) (sort_values_timestamp r5))"
    using prepare_ckpt_shape by blast
  have "map kv (rows (ckpt_data (prepare_data_ckpt s))) =
          map kv (map (\<lambda>r. r\<lparr>avg_pupildiameter_smooth := NaN\<rparr>) (sort_values_timestamp r5))"
    unfolding r by (rule loc_valid_assign_kv) (simp add: kv_def)
  also have "\<dots> = map kv (sort_values_timestamp r5)"
    by (simp add: kv_def)
  finally show ?thesis using k by blast
qed

lemma prepare_ckpt_ordered: "timestamp_ordered (rows (ckpt_data (prepare_data_ckpt s)))"
proof -
  obtain r5 where r: "map kv (rows (ckpt_data (prepare_data_ckpt s))) = map kv (sort_values_timestamp r5)"
    using prepare_ckpt_timestamps by blast
  have "map timestamp (rows (ckpt_data (prepare_data_ckpt s))) = map timestamp (sort_values_timestamp r5)"
    by (simp only: kv_fields r)
  then show ?thesis
    using timestamp_ordered_cong timestamp_ordered_sort by blast
qed

lemma prepare_ckpt_ready: "chain_ready (prepare_data_ckpt s)"
  by (simp add: chain_ready_def prepare_ckpt_columns prepare_ckpt_ordered)

lemma prepare_ckpt_keeps_flags:
  assumes c: "''is_valid'' \<in> set (columns (ckpt_data s))"
    and o: "timestamp_ordered (rows (ckpt_data s))"
  shows "map kv (rows (ckpt_data (prepare_data_ckpt s))) = map kv (rows (ckpt_data s))"
proof -
  obtain r5 where k: "map kv r5 = map kv (rows (ensure_is_valid_ckpt (ckpt_data s)))"
    and r: "map kv (rows (ckpt_data (prepare_data_ckpt s))) = map kv (sort_values_timestamp r5)"
    using prepare_ckpt_timestamps by blast
  have k': "map kv r5 = map kv (rows (ckpt_data s))"
    using k ensure_ckpt_rows[OF c] by simp
  have "map timestamp r5 = map timestamp (rows (ckpt_data s))"
    by (simp only: kv_fields k')
  then have "timestamp_ordered r5" using o timestamp_ordered_cong by blast
  then have "sort_values_timestamp r5 = r5" by (rule sort_values_timestamp_id)
  then show ?thesis using r k' by simp
qed

lemma set_data_ckpt_step:
  assumes rd: "chain_ready fd"
    and len: "length rs' = length (rows (get_data_ckpt fd))"
    and ts: "map timestamp rs' = map timestamp (rows (get_data_ckpt fd))"
    and nr: "no_revival (rows (get_data_ckpt fd)) rs'"
  shows "chain_ready (set_data_ckpt fd ((get_data_ckpt fd)\<lparr>rows := rs'\<rparr>)) \<and>
         no_revival (rows (get_data_ckpt fd))
           (rows (get_data_ckpt (set_data_ckpt fd ((get_data_ckpt fd)\<lparr>rows := rs'\<rparr>))))"
proof -
  let ?s = "fd\<lparr>ckpt_data := (get_data_ckpt fd)\<lparr>rows := rs'\<rparr>\<rparr>"
  have c: "''is_valid'' \<in> set (columns (ckpt_data ?s))"
    using rd by (simp add: chain_ready_def get_data_ckpt_def)
  have "timestamp_ordered (rows (get_data_ckpt fd))"
    using rd by (simp add: chain_ready_def get_data_ckpt_def)
  then have o: "timestamp_ordered (rows (ckpt_data ?s))"
    using timestamp_ordered_cong[OF ts] by simp
  have k: "map kv (rows (ckpt_data (prepare_data_ckpt ?s))) = map kv rs'"
    using prepare_ckpt_keeps_flags[OF c o] by simp
  have v: "map is_valid (rows (ckpt_data (prepare_data_ckpt ?s))) = map is_valid rs'"
    by (simp only: kv_fields k)
  have l: "length (rows (ckpt_data (prepare_data_ckpt ?s))) = length rs'"
    using arg_cong[OF v, of length] by simp
  have "no_revival (rows (get_data_ckpt fd)) (rows (ckpt_data (prepare_data_ckpt ?s)))"
    unfolding no_revival_def list_all2_conv_all_nth
  proof (intro conjI allI impI)
    show "length (rows (get_data_ckpt fd)) = length (rows (ckpt_data (prepare_data_ckpt ?s)))"
      using l len by simp
  next
    fix i assume i: "i < length (rows (get_data_ckpt fd))"
      and a: "is_valid (rows (ckpt_data (prepare_data_ckpt ?s)) ! i)"
    have "is_valid (rows (ckpt_data (prepare_data_ckpt ?s)) ! i)
            = map is_valid (rows (ckpt_data (prepare_data_ckpt ?s))) ! i"
      using i l len by simp
    also have "\<dots> = is_valid (rs' ! i)" using i len by (simp add: v)
    finally have "is_valid (rs' ! i)" using a by simp
    then show "is_valid (rows (get_data_ckpt fd) ! i)"
      using nr i by (simp add: no_revival_def list_all2_conv_all_nth)
  qed
  then show ?thesis
    by (simp add: set_data_ckpt_def get_data_ckpt_def prepare_ckpt_ready)
qed


lemma length_mask_spacing_ckpt [simp]:
  "length (mask_unrealistic_event_spacing_ckpt mi rs) = length rs"
  by (cases rs) (simp_all add: mask_unrealistic_event_spacing_ckpt_def Let_def diff_def shift_def)

lemma length_pass_mask_ckpt [simp]: "length (pass_mask_ckpt p rs) = length rs"
  by (cases p) simp_all

lemma loc_set_invalid_timestamp:
  "length msk = length rs \<Longrightarrow> map timestamp (loc_set_invalid msk rs) = map timestamp rs"
  by (induction msk rs rule: list_induct2) (simp_all add: loc_set_invalid_def)

lemma loc_set_invalid_no_revival:
  "length msk = length rs \<Longrightarrow> no_revival rs (loc_set_invalid msk rs)"
  by (induction msk rs rule: list_induct2) (simp_all add: loc_set_invalid_def no_revival_def)

lemma index_pass_ckpt_eq:
  "apply_pass_ckpt (IndexPass p) fd =
     Inr (set_data_ckpt fd ((get_data_ckpt fd)
            \<lparr>rows := loc_set_invalid (pass_mask_ckpt p (rows (get_data_ckpt fd))) (rows (get_data_ckpt fd))\<rparr>))"
  by (cases p)
     (simp_all add: filter_only_gaze_ckpt_def filter_invalid_pupils_ckpt_def
        filter_missing_data_ckpt_def filter_by_timestamp_ckpt_def
        filter_unrealistic_event_spacing_ckpt_def filter_constant_pupil_ckpt_def
        filter_async_pupil_size_ckpt_def Let_def)

lemma apply_pass_ckpt_step:
  assumes rd: "chain_ready fd"
  shows "\<exists>fd'. apply_pass_ckpt p fd = Inr fd' \<and> chain_ready fd' \<and>
               no_revival (rows (get_data_ckpt fd)) (rows (get_data_ckpt fd'))"
proof (cases p)
  case (IndexPass q)
  let ?rs = "rows (get_data_ckpt fd)"
  let ?rs' = "loc_set_invalid (pass_mask_ckpt q ?rs) ?rs"
  have "chain_ready (set_data_ckpt fd ((get_data_ckpt fd)\<lparr>rows := ?rs'\<rparr>)) \<and>
        no_revival ?rs (rows (get_data_ckpt (set_data_ckpt fd ((get_data_ckpt fd)\<lparr>rows := ?rs'\<rparr>))))"
    by (rule set_data_ckpt_step[OF rd])
       (simp_all add: loc_set_invalid_timestamp loc_set_invalid_no_revival)
  then show ?thesis using IndexPass by (simp add: index_pass_ckpt_eq)
next
  case (PupilSpeed mx)
  let ?rs = "rows (get_data_ckpt fd)"
  let ?rs' = "loc_valid_assign (\<lambda>r m. if m then r\<lparr>is_valid := False\<rparr> else r)
                (speed_marks mx (filter is_valid ?rs)) ?rs"
  have cols: "\<not> (''avg_pupildiameter'' \<notin> set (columns (get_data_ckpt fd)) \<or>
                 ''relative_timestamp'' \<notin> set (columns (get_data_ckpt fd)))"
    using rd by (simp add: chain_ready_def get_data_ckpt_def)
  have "chain_ready (set_data_ckpt fd ((get_data_ckpt fd)\<lparr>rows := ?rs'\<rparr>)) \<and>
        no_revival ?rs (rows (get_data_ckpt (set_data_ckpt fd ((get_data_ckpt fd)\<lparr>rows := ?rs'\<rparr>))))"
    by (rule set_data_ckpt_step[OF rd])
       (simp_all add: loc_valid_assign_timestamp loc_valid_assign_clear no_revival_def)
  then show ?thesis
    using PupilSpeed cols by (simp add: filter_pupil_speed_def Let_def)
next
  case (StdOutliers w sg)
  let ?rs = "rows (get_data_ckpt fd)"
  let ?rs' = "loc_valid_assign (\<lambda>r m. if m then r\<lparr>is_valid := False\<rparr> else r)
                (std_outlier_mask w sg (filter is_valid ?rs)) ?rs"
  have cols: "\<not> ''std_pupildiameter'' \<notin> set (columns (get_data_ckpt fd))"
    using rd by (simp add: chain_ready_def get_data_ckpt_def)
  have "chain_ready (set_data_ckpt fd ((get_data_ckpt fd)\<lparr>rows := ?rs'\<rparr>)) \<and>
        no_revival ?rs (rows (get_data_ckpt (set_data_ckpt fd ((get_data_ckpt fd)\<lparr>rows := ?rs'\<rparr>))))"
    by (rule set_data_ckpt_step[OF rd])
       (simp_all add: loc_valid_assign_timestamp loc_valid_assign_clear no_revival_def)
  then show ?thesis
    using StdOutliers cols by (simp add: filter_by_std_outliers_def Let_def)
qed

lemma apply_chain_ckpt_steps:
  "chain_ready fd \<Longrightarrow>
   \<exists>fd'. apply_chain_ckpt ps fd = Inr fd' \<and> chain_ready fd' \<and>
         no_revival (rows (get_data_ckpt fd)) (rows (get_data_ckpt fd'))"
proof (induction ps arbitrary: fd)
  case Nil
  then show ?case by (simp add: no_revival_refl)
next
  case (Cons p ps)
  obtain fd1 where a: "apply_pass_ckpt p fd = Inr fd1" and r1: "chain_ready fd1"
    and n1: "no_revival (rows (get_data_ckpt fd)) (rows (get_data_ckpt fd1))"
    using apply_pass_ckpt_step[OF Cons.prems] by blast
  obtain fd2 where b: "apply_chain_ckpt ps fd1 = Inr fd2" and r2: "chain_ready fd2"
    and n2: "no_revival (rows (get_data_ckpt fd1)) (rows (get_data_ckpt fd2))"
    using Cons.IH[OF r1] by blast
  have "apply_chain_ckpt (p # ps) fd = Inr fd2" using a b by simp
  then show ?case using r2 no_revival_trans[OF n1 n2] by blast
qed

lemma apply_chain_ckpt_append:
  "apply_chain_ckpt (ps @ qs) fd =
     (case apply_chain_ckpt ps fd of Inl e \<Rightarrow> Inl e | Inr fd' \<Rightarrow> apply_chain_ckpt qs fd')"
  by (induction ps arbitrary: fd) (simp_all split: sum.splits)

lemma FilteredData_ckpt_ready: "chain_ready (FilteredData_ckpt df uid)"
  using prepare_ckpt_ready[of "\<lparr>ckpt_data = df, ckpt_start_timestamp = None, ckpt_user_id = None\<rparr>"]
  by (simp add: FilteredData_ckpt_def chain_ready_def)

lemma set_data_ckpt_ready: "chain_ready (set_data_ckpt fd df)"
  by (simp add: set_data_ckpt_def prepare_ckpt_ready)

lemma chain_ckpt_monotonic:
  assumes "chain_ready s0"
  shows "\<exists>s1 s2. apply_chain_ckpt ps s0 = Inr s1 \<and> apply_chain_ckpt (ps @ qs) s0 = Inr s2 \<and>
           list_all2 (\<lambda>old new. is_valid new \<longrightarrow> is_valid old)
             (rows (get_data_ckpt s1)) (rows (get_data_ckpt s2))"
proof -
  obtain s1 where a: "apply_chain_ckpt ps s0 = Inr s1" and r1: "chain_ready s1"
    using apply_chain_ckpt_steps[OF assms] by blast
  obtain s2 where b: "apply_chain_ckpt qs s1 = Inr s2"
    and n: "no_revival (rows (get_data_ckpt s1)) (rows (get_data_ckpt s2))"
    using apply_chain_ckpt_steps[OF r1] by blast
  have "apply_chain_ckpt (ps @ qs) s0 = Inr s2"
    using a b by (simp add: apply_chain_ckpt_append)
  then show ?thesis using a n by (auto simp: no_revival_def)
qed

lemma set_data_ckpt_keeps_flags:
  assumes "''is_valid'' \<in> set (columns df)" and "timestamp_ordered (rows df)"
  shows "map is_valid (rows (get_data_ckpt (set_data_ckpt fd df))) = map is_valid (rows df)"
    and "map is_valid (rows (get_data_ckpt (FilteredData_ckpt df uid))) = map is_valid (rows df)"
proof -
  have "map kv (rows (ckpt_data (prepare_data_ckpt (fd\<lparr>ckpt_data := df\<rparr>)))) = map kv (rows df)"
    using prepare_ckpt_keeps_flags[of "fd\<lparr>ckpt_data := df\<rparr>"] assms by simp
  then show "map is_valid (rows (get_data_ckpt (set_data_ckpt fd df))) = map is_valid (rows df)"
    by (simp only: kv_fields set_data_ckpt_def get_data_ckpt_def)
  have "map kv (rows (ckpt_data (prepare_data_ckpt
           \<lparr>ckpt_data = df, ckpt_start_timestamp = None, ckpt_user_id = None\<rparr>))) = map kv (rows df)"
    using prepare_ckpt_keeps_flags[of "\<lparr>ckpt_data = df, ckpt_start_timestamp = None, ckpt_user_id = None\<rparr>"]
          assms by simp
  then show "map is_valid (rows (get_data_ckpt (FilteredData_ckpt df uid))) = map is_valid (rows df)"
    by (simp add: kv_fields FilteredData_ckpt_def get_data_ckpt_def)
qed

section \<open>Monotonic validity\<close>

lemma FilteredData_valid:
  "''is_valid'' \<in> set (columns df) \<Longrightarrow>
   map is_valid (rows (get_data (FilteredData df uid))) = map is_valid (rows df)"
  by (simp add: FilteredData_def get_data_def prepare_data_valid)

text \<open>
  Claim C4. A recomputation (at construction or through \<open>set_data\<close>) of a table that has
  the \<open>is_valid\<close> column leaves every flag as it is, and between any two points of any run
  of passes of \<open>raw_data_filter.py\<close>, started from a constructed object or from one that
  was given a table through \<open>set_data\<close>, no row that was invalid at the earlier point is valid
  at the later one. The same holds in the checkpoint snapshot for every run of the nine
  passes of the documented chain (the seven passes, the speed filter and the outlier
  filter): its recomputation sorts the rows by timestamp, so it keeps the flags, row by row,
  of a table whose rows are in timestamp order, as the table of every constructed object is;
  a run from a constructed object, or from one that was given a table through \<open>set_data\<close>,
  raises nothing, and no row that was invalid at an earlier point of the run is valid at a
  later one.
\<close>

theorem validity_monotonic:
  "(''is_valid'' \<in> set (columns df) \<longrightarrow>
      map is_valid (rows (get_data (FilteredData df uid))) = map is_valid (rows df) \<and>
      map is_valid (rows (get_data (set_data fd df))) = map is_valid (rows df)) \<and>
   list_all2 (\<lambda>old new. is_valid new \<longrightarrow> is_valid old)
     (rows (get_data (apply_chain ps (FilteredData df uid))))
     (rows (get_data (apply_chain (ps @ qs) (FilteredData df uid)))) \<and>
   list_all2 (\<lambda>old new. is_valid new \<longrightarrow> is_valid old)
     (rows (get_data (apply_chain ps (set_data fd df))))
     (rows (get_data (apply_chain (ps @ qs) (set_data fd df)))) \<and>
   (''is_valid'' \<in> set (columns cdf) \<and> timestamp_ordered (rows cdf) \<longrightarrow>
      map is_valid (rows (get_data_ckpt (FilteredData_ckpt cdf uid))) = map is_valid (rows cdf) \<and>
      map is_valid (rows (get_data_ckpt (set_data_ckpt cfd cdf))) = map is_valid (rows cdf)) \<and>
   (\<exists>s1 s2. apply_chain_ckpt cps (FilteredData_ckpt cdf uid) = Inr s1 \<and>
            apply_chain_ckpt (cps @ cqs) (FilteredData_ckpt cdf uid) = Inr s2 \<and>
            list_all2 (\<lambda>old new. is_valid new \<longrightarrow> is_valid old)
              (rows (get_data_ckpt s1)) (rows (get_data_ckpt s2))) \<and>
   (\<exists>s1 s2. apply_chain_ckpt cps (set_data_ckpt cfd cdf) = Inr s1 \<and>
            apply_chain_ckpt (cps @ cqs) (set_data_ckpt cfd cdf) = Inr s2 \<and>
            list_all2 (\<lambda>old new. is_valid new \<longrightarrow> is_valid old)
              (rows (get_data_ckpt s1)) (rows (get_data_ckpt s2)))"
proof -
  have main: "(''is_valid'' \<in> set (columns df) \<longrightarrow>
      map is_valid (rows (get_data (FilteredData df uid))) = map is_valid (rows df) \<and>
      map is_valid (rows (get_data (set_data fd df))) = map is_valid (rows df)) \<and>
   list_all2 (\<lambda>old new. is_valid new \<longrightarrow> is_valid old)
     (rows (get_data (apply_chain ps (FilteredData df uid))))
     (rows (get_data (apply_chain (ps @ qs) (FilteredData df uid)))) \<and>
   list_all2 (\<lambda>old new. is_valid new \<longrightarrow> is_valid old)
     (rows (get_data (apply_chain ps (set_data fd df))))
     (rows (get_data (apply_chain (ps @ qs) (set_data fd df))))"
    using no_revival_chain[of "apply_chain ps (set_data fd df)" qs]
          no_revival_chain[of "apply_chain ps (FilteredData df uid)" qs]
    by (simp add: set_data_valid FilteredData_valid apply_chain_append apply_chain_columns
          set_data_columns FilteredData_columns no_revival_def)
  have flags: "''is_valid'' \<in> set (columns cdf) \<and> timestamp_ordered (rows cdf) \<longrightarrow>
      map is_valid (rows (get_data_ckpt (FilteredData_ckpt cdf uid))) = map is_valid (rows cdf) \<and>
      map is_valid (rows (get_data_ckpt (set_data_ckpt cfd cdf))) = map is_valid (rows cdf)"
    using set_data_ckpt_keeps_flags by blast
  have c1: "\<exists>s1 s2. apply_chain_ckpt cps (FilteredData_ckpt cdf uid) = Inr s1 \<and>
            apply_chain_ckpt (cps @ cqs) (FilteredData_ckpt cdf uid) = Inr s2 \<and>
            list_all2 (\<lambda>old new. is_valid new \<longrightarrow> is_valid old)
              (rows (get_data_ckpt s1)) (rows (get_data_ckpt s2))"
    by (rule chain_ckpt_monotonic[OF FilteredData_ckpt_ready])
  have c2: "\<exists>s1 s2. apply_chain_ckpt cps (set_data_ckpt cfd cdf) = Inr s1 \<and>
            apply_chain_ckpt (cps @ cqs) (set_data_ckpt cfd cdf) = Inr s2 \<and>
            list_all2 (\<lambda>old new. is_valid new \<longrightarrow> is_valid old)
              (rows (get_data_ckpt s1)) (rows (get_data_ckpt s2))"
    by (rule chain_ckpt_monotonic[OF set_data_ckpt_ready])
  show ?thesis using main flags c1 c2 by blast
qed

theorem validity_monotonic_witness:
  "''is_valid'' \<in> set (columns chain_table) \<and>
   map is_valid (rows (get_data (FilteredData chain_table (Some 704)))) = [True, True, False] \<and>
   map is_valid (rows (get_data (apply_chain [OnlyGaze] (FilteredData chain_table (Some 704)))))
     = [True, False, False] \<and>
   list_all2 (\<lambda>old new. is_valid new \<longrightarrow> is_valid old)
     (rows (get_data (apply_chain [] (FilteredData chain_table (Some 704)))))
     (rows (get_data (apply_chain ([] @ [OnlyGaze]) (FilteredData chain_table (Some 704))))) \<and>
   apply_chain_ckpt [PupilSpeed (Fin 5)] (FilteredData_ckpt speed_table (Some 704))
     = Inr \<lparr>ckpt_data = \<lparr>rows = speed_rows1, columns = all_columns\<rparr>,
            ckpt_start_timestamp = Some (Fin 200), ckpt_user_id = Some 704\<rparr> \<and>
   apply_chain_ckpt ([PupilSpeed (Fin 5)] @ [PupilSpeed (Fin 5)]) (FilteredData_ckpt speed_table (Some 704))
     = Inr \<lparr>ckpt_data = \<lparr>rows = speed_rows2, columns = all_columns\<rparr>,
            ckpt_start_timestamp = None, ckpt_user_id = Some 704\<rparr> \<and>
   map is_valid speed_rows1 = [True, False, False, True] \<and>
   map is_valid speed_rows2 = [False, False, False, False] \<and>
   list_all2 (\<lambda>old new. is_valid new \<longrightarrow> is_valid old) speed_rows1 speed_rows2"
proof -
  have c: "''is_valid'' \<in> set (columns chain_table)"
    by (simp add: chain_table_def raw_columns_def)
  have v: "map is_valid (rows chain_table) = [True, True, False]"
    by (simp add: chain_table_def raw_columns_def raw_row_def)
  have g: "map event_type (rows (get_data (FilteredData chain_table (Some 704))))
             = [''gaze'', ''blink'', ''gaze'']"
    by (simp add: FilteredData_def get_data_def prepare_data_def add_column_def ensure_is_valid_def
          reset_calculated_fields_def Let_def chain_table_def raw_columns_def raw_row_def)
  note m = validity_monotonic[of chain_table "Some 704" empty_object "[]" "[OnlyGaze]"
             speed_table "new_object_ckpt speed_table" "[PupilSpeed (Fin 5)]" "[PupilSpeed (Fin 5)]"]
  have a: "map is_valid (rows (get_data (FilteredData chain_table (Some 704)))) = [True, True, False]"
    using m c v by simp
  have b: "map is_valid (rows (get_data (apply_chain [OnlyGaze] (FilteredData chain_table (Some 704)))))
             = [True, False, False]"
    using apply_pass_valid[OF FilteredData_columns, of OnlyGaze chain_table "Some 704"]
    by (simp add: a mask_only_gaze_def g)
  have l: "list_all2 (\<lambda>old new. is_valid new \<longrightarrow> is_valid old)
     (rows (get_data (apply_chain [] (FilteredData chain_table (Some 704)))))
     (rows (get_data (apply_chain ([] @ [OnlyGaze]) (FilteredData chain_table (Some 704)))))"
    using m by blast
  have k1: "apply_chain_ckpt [PupilSpeed (Fin 5)] (FilteredData_ckpt speed_table (Some 704))
     = Inr \<lparr>ckpt_data = \<lparr>rows = speed_rows1, columns = all_columns\<rparr>,
            ckpt_start_timestamp = Some (Fin 200), ckpt_user_id = Some 704\<rparr>"
    by (simp add: speed_state1)
  have k2: "apply_chain_ckpt ([PupilSpeed (Fin 5)] @ [PupilSpeed (Fin 5)])
              (FilteredData_ckpt speed_table (Some 704))
     = Inr \<lparr>ckpt_data = \<lparr>rows = speed_rows2, columns = all_columns\<rparr>,
            ckpt_start_timestamp = None, ckpt_user_id = Some 704\<rparr>"
    by (simp add: speed_state1 speed_state2)
  obtain s1 s2 where
    e1: "apply_chain_ckpt [PupilSpeed (Fin 5)] (FilteredData_ckpt speed_table (Some 704)) = Inr s1"
    and e2: "apply_chain_ckpt ([PupilSpeed (Fin 5)] @ [PupilSpeed (Fin 5)])
              (FilteredData_ckpt speed_table (Some 704)) = Inr s2"
    and e3: "list_all2 (\<lambda>old new. is_valid new \<longrightarrow> is_valid old)
              (rows (get_data_ckpt s1)) (rows (get_data_ckpt s2))"
    using m by blast
  have k3: "list_all2 (\<lambda>old new. is_valid new \<longrightarrow> is_valid old) speed_rows1 speed_rows2"
    using e1 e2 e3 unfolding k1 k2 by (auto simp: get_data_ckpt_def)
  have f1: "map is_valid speed_rows1 = [True, False, False, True]"
    by (simp add: speed_rows1_def gaze_row_ckpt_def)
  have f2: "map is_valid speed_rows2 = [False, False, False, False]"
    by (simp add: speed_rows2_def gaze_row_ckpt_def)
  show ?thesis using c a b l k1 k2 k3 f1 f2 by blast
qed

section \<open>Recompute consistency\<close>

text \<open>
  Claim C5, as amended. After construction and after \<open>set_data\<close>: when some row is valid,
  the start timestamp is the minimum, as pandas computes it, of the timestamps of the valid
  rows, and the relative timestamp of every valid row is its timestamp minus that start;
  when a valid row has a timestamp that is not missing, the start is the timestamp of a
  valid row and is below or equal to every such timestamp. When no row is valid, the start
  timestamp is \<open>None\<close>, every relative timestamp is \<open>NaN\<close>, and the table keeps its rows
  and raw columns. The call raises nothing when the table has the \<open>timestamp\<close> column and
  either has the column \<open>timestamp_readable\<close> already or holds only timestamps that are
  missing or within the range of nanosecond datetimes.
\<close>

theorem recompute_consistency:
  assumes "s = FilteredData df uid \<or> s = set_data fd df"
  shows
  "(filter is_valid (rows (get_data s)) \<noteq> [] \<longrightarrow>
      get_start_timestamp s = Some (series_min (map timestamp (filter is_valid (rows (get_data s))))) \<and>
      (\<forall>r\<in>set (rows (get_data s)). is_valid r \<longrightarrow>
         relative_timestamp r =
           fsub (timestamp r) (series_min (map timestamp (filter is_valid (rows (get_data s)))))) \<and>
      ((\<exists>r\<in>set (rows (get_data s)). is_valid r \<and> timestamp r \<noteq> NaN) \<longrightarrow>
         (\<exists>r\<in>set (rows (get_data s)). is_valid r \<and>
            timestamp r = series_min (map timestamp (filter is_valid (rows (get_data s))))) \<and>
         (\<forall>r\<in>set (rows (get_data s)). is_valid r \<and> timestamp r \<noteq> NaN \<longrightarrow>
            fle (series_min (map timestamp (filter is_valid (rows (get_data s))))) (timestamp r)))) \<and>
   (filter is_valid (rows (get_data s)) = [] \<longrightarrow>
      get_start_timestamp s = None \<and>
      (\<forall>r\<in>set (rows (get_data s)). relative_timestamp r = NaN) \<and>
      length (rows (get_data s)) = length (rows df) \<and>
      map timestamp (rows (get_data s)) = map timestamp (rows df) \<and>
      map event_type (rows (get_data s)) = map event_type (rows df) \<and>
      map eyeleft_pupildiameter (rows (get_data s)) = map eyeleft_pupildiameter (rows df) \<and>
      map eyeright_pupildiameter (rows (get_data s)) = map eyeright_pupildiameter (rows df)) \<and>
   (''timestamp'' \<in> set (columns df) \<and>
    (''timestamp_readable'' \<in> set (columns df) \<or>
     (\<forall>r\<in>set (rows df). to_datetime_ok (timestamp r))) \<longrightarrow>
      (s = FilteredData df uid \<longrightarrow> FilteredData_init df uid = Inr s) \<and>
      (s = set_data fd df \<longrightarrow> set_data_call fd df = Inr s))"
proof -
  obtain s0 where d: "self_data s0 = df"
    and g: "get_data s = self_data (prepare_data s0)"
    and st: "get_start_timestamp s = self_start_timestamp (prepare_data s0)"
    using object_cases[OF assms] by blast
  let ?R = "rows (get_data s)"
  let ?m = "series_min (map timestamp (filter is_valid ?R))"
  have start: "get_start_timestamp s = (if filter is_valid ?R = [] then None else Some ?m)"
    unfolding st g by (rule prepare_data_start_after)
  have rel: "\<forall>r\<in>set ?R. relative_timestamp r = (if is_valid r then fsub (timestamp r) ?m else NaN)"
    unfolding g using prepare_data_relative by blast
  have len: "length ?R = length (rows df)"
    unfolding g using prepare_data_length[of s0] d by simp
  have raw: "map raw_of ?R = map raw_of (rows df)"
    unfolding g using prepare_data_raw[of s0] d by simp
  have fields: "map timestamp ?R = map timestamp (rows df)"
    "map event_type ?R = map event_type (rows df)"
    "map eyeleft_pupildiameter ?R = map eyeleft_pupildiameter (rows df)"
    "map eyeright_pupildiameter ?R = map eyeright_pupildiameter (rows df)"
    by (simp_all only: raw_of_fields raw)
  have minp: "(\<exists>r\<in>set ?R. is_valid r \<and> timestamp r \<noteq> NaN) \<longrightarrow>
         (\<exists>r\<in>set ?R. is_valid r \<and> timestamp r = ?m) \<and>
         (\<forall>r\<in>set ?R. is_valid r \<and> timestamp r \<noteq> NaN \<longrightarrow> fle ?m (timestamp r))"
  proof
    assume "\<exists>r\<in>set ?R. is_valid r \<and> timestamp r \<noteq> NaN"
    then have ex: "\<exists>x\<in>set (map timestamp (filter is_valid ?R)). x \<noteq> NaN" by auto
    have mm: "?m \<in> set (map timestamp (filter is_valid ?R)) \<and>
              (\<forall>x\<in>set (map timestamp (filter is_valid ?R)). x \<noteq> NaN \<longrightarrow> fle ?m x)"
      using series_min_is_min[OF ex] by blast
    have a: "\<exists>r\<in>set ?R. is_valid r \<and> timestamp r = ?m"
      using mm by auto
    have b: "\<forall>r\<in>set ?R. is_valid r \<and> timestamp r \<noteq> NaN \<longrightarrow> fle ?m (timestamp r)"
      using mm by auto
    show "(\<exists>r\<in>set ?R. is_valid r \<and> timestamp r = ?m) \<and>
         (\<forall>r\<in>set ?R. is_valid r \<and> timestamp r \<noteq> NaN \<longrightarrow> fle ?m (timestamp r))"
      using a b by blast
  qed
  have nov: "filter is_valid ?R = [] \<longrightarrow> (\<forall>r\<in>set ?R. relative_timestamp r = NaN)"
    using rel by (auto simp: filter_empty_conv)
  have ok: "''timestamp'' \<in> set (columns df) \<and>
    (''timestamp_readable'' \<in> set (columns df) \<or>
     (\<forall>r\<in>set (rows df). to_datetime_ok (timestamp r))) \<longrightarrow>
      (s = FilteredData df uid \<longrightarrow> FilteredData_init df uid = Inr s) \<and>
      (s = set_data fd df \<longrightarrow> set_data_call fd df = Inr s)"
    by (simp add: FilteredData_init_def set_data_call_def prepare_data_error_free)
  show ?thesis
    using start rel len fields minp nov ok by simp
qed


theorem recompute_consistency_witness:
  "filter is_valid (rows (get_data (set_data empty_object stale_table))) \<noteq> [] \<and>
   get_start_timestamp (set_data empty_object stale_table) = Some (Fin 10) \<and>
   map relative_timestamp (filter is_valid (rows (get_data (set_data empty_object stale_table))))
     = [fsub (Fin 10) (Fin 10), fsub (Fin 11) (Fin 10)] \<and>
   filter is_valid (rows (get_data (set_data empty_object none_valid_table))) = [] \<and>
   get_start_timestamp (set_data empty_object none_valid_table) = None \<and>
   map relative_timestamp (rows (get_data (set_data empty_object none_valid_table))) = [NaN] \<and>
   set_data_call empty_object none_valid_table = Inr (set_data empty_object none_valid_table) \<and>
   list_all to_datetime_ok (map timestamp (rows chain_table)) \<and>
   FilteredData_init chain_table (Some 704) = Inr (FilteredData chain_table (Some 704))"
proof -
  let ?s = "set_data empty_object stale_table"
  let ?n = "set_data empty_object none_valid_table"
  have v: "filter is_valid (rows (get_data ?s)) \<noteq> []"
    by (simp add: stale_table_after raw_row_def)
  have m: "series_min (map timestamp (filter is_valid (rows (get_data ?s)))) = Fin 10"
    by (simp add: stale_table_after raw_row_def series_min_def fmin_def)
  have e: "filter is_valid (rows (get_data ?n)) = []"
    by (simp add: none_valid_table_after raw_row_def)
  note a = recompute_consistency[of ?s stale_table None empty_object]
  note b = recompute_consistency[of ?n none_valid_table None empty_object]
  have a1: "get_start_timestamp ?s = Some (Fin 10)"
    using a v m by simp
  have a2: "\<forall>r\<in>set (rows (get_data ?s)). is_valid r \<longrightarrow>
              relative_timestamp r = fsub (timestamp r) (Fin 10)"
    using a v m by simp
  have a3: "map relative_timestamp (filter is_valid (rows (get_data ?s)))
              = [fsub (Fin 10) (Fin 10), fsub (Fin 11) (Fin 10)]"
    using a2 by (simp add: stale_table_after raw_row_def)
  have b1: "get_start_timestamp ?n = None"
    using b e by simp
  have b2: "\<forall>r\<in>set (rows (get_data ?n)). relative_timestamp r = NaN"
    using b e by simp
  have b3: "map relative_timestamp (rows (get_data ?n)) = [NaN]"
    using b2 by (simp add: none_valid_table_after)
  have b4: "set_data_call empty_object none_valid_table = Inr (set_data empty_object none_valid_table)"
    using b by (simp add: none_valid_table_def raw_columns_def)
  have c0: "list_all to_datetime_ok (map timestamp (rows chain_table))"
    by (simp add: chain_table_def raw_row_def to_datetime_ok_def)
  have c1: "FilteredData_init chain_table (Some 704) = Inr (FilteredData chain_table (Some 704))"
    using recompute_consistency[of "FilteredData chain_table (Some 704)" chain_table "Some 704"
            empty_object] c0
    by (simp add: chain_table_def raw_columns_def list_all_iff)
  show ?thesis using v a1 a3 e b1 b3 b4 c0 c1 by simp
qed

text \<open>
  Claim C5 as stated fails where it says that no failure is raised when zero rows are
  valid. An empty recording gives a table without rows and without columns, and its
  construction fails with the key error of \<open>timestamp\<close>; a table whose only row is invalid
  and has a timestamp of \<open>10^10\<close> seconds fails in the conversion to a datetime.
\<close>

theorem construction_fails_without_valid_rows:
  "filter is_valid (rows empty_recording) = [] \<and>
   FilteredData_init empty_recording (Some 704) = Inl (KeyError ''timestamp'') \<and>
   filter is_valid (rows late_table) = [] \<and>
   FilteredData_init late_table (Some 704) = Inl OutOfBoundsDatetime"
  by (simp add: FilteredData_init_def prepare_data_error_def ensure_is_valid_def
        reset_calculated_fields_def Let_def empty_recording_def late_table_def raw_columns_def
        raw_row_def to_datetime_ok_def)

section \<open>No stale relative timestamps\<close>

text \<open>
  Claim C10. In \<open>filtered_data.py\<close> the recomputation first resets the calculated field
  \<open>relative_timestamp\<close> to \<open>NaN\<close> on all rows and then fills it in on the valid rows only:
  the resulting table is the reset table with the field of the valid rows overwritten, so
  every invalid row has \<open>NaN\<close> there, whatever it held before.
\<close>

theorem no_stale_relative_timestamp:
  assumes "s = FilteredData df uid \<or> s = set_data fd df"
  shows
  "(\<forall>r\<in>set (rows (reset_calculated_fields (ensure_is_valid df))). relative_timestamp r = NaN) \<and>
   (\<exists>fill. rows (get_data s) =
        map (\<lambda>r. if is_valid r then r\<lparr>relative_timestamp := fill r\<rparr> else r)
          (rows (reset_calculated_fields (ensure_is_valid df)))) \<and>
   (\<forall>r\<in>set (rows (get_data s)). \<not> is_valid r \<longrightarrow> relative_timestamp r = NaN)"
proof -
  obtain s0 where d: "self_data s0 = df"
    and g: "get_data s = self_data (prepare_data s0)"
    using object_cases[OF assms] by blast
  have a: "\<forall>r\<in>set (rows (reset_calculated_fields (ensure_is_valid df))). relative_timestamp r = NaN"
    by (simp add: reset_rows)
  have "rows (get_data s) =
        map (\<lambda>r. if is_valid r
                  then r\<lparr>relative_timestamp := fsub (timestamp r)
                          (series_min (map timestamp (filter is_valid (rows (ensure_is_valid df)))))\<rparr>
                  else r)
          (rows (reset_calculated_fields (ensure_is_valid df)))"
    unfolding g prepare_data_rows d reset_rows by (simp add: o_def)
  then have b: "\<exists>fill. rows (get_data s) =
        map (\<lambda>r. if is_valid r then r\<lparr>relative_timestamp := fill r\<rparr> else r)
          (rows (reset_calculated_fields (ensure_is_valid df)))"
    by (rule exI[of _ "\<lambda>r. fsub (timestamp r)
                          (series_min (map timestamp (filter is_valid (rows (ensure_is_valid df)))))"])
  have c: "\<forall>r\<in>set (rows (get_data s)). \<not> is_valid r \<longrightarrow> relative_timestamp r = NaN"
    unfolding g using prepare_data_relative by simp
  show ?thesis using a b c by blast
qed

theorem no_stale_relative_timestamp_witness:
  "relative_timestamp (rows stale_table ! 0) = Fin 2 \<and>
   \<not> is_valid (rows (get_data (set_data empty_object stale_table)) ! 0) \<and>
   relative_timestamp (rows (get_data (set_data empty_object stale_table)) ! 0) = NaN"
proof -
  have m: "rows (get_data (set_data empty_object stale_table)) ! 0
             \<in> set (rows (get_data (set_data empty_object stale_table)))"
    by (simp add: stale_table_after)
  have i: "\<not> is_valid (rows (get_data (set_data empty_object stale_table)) ! 0)"
    by (simp add: stale_table_after raw_row_def)
  have "relative_timestamp (rows (get_data (set_data empty_object stale_table)) ! 0) = NaN"
    using no_stale_relative_timestamp[of "set_data empty_object stale_table" stale_table None
            empty_object] m i by blast
  then show ?thesis using i by (simp add: stale_table_def raw_columns_def raw_row_def)
qed

section \<open>The spacing filter\<close>

text \<open>
  Claim C1, evaluated on \<open>filter_unrealistic_event_spacing\<close> of \<open>raw_data_filter.py\<close> at two
  valid rows whose timestamps differ by less than \<open>min_interval = 0.005\<close>: the later row is
  invalidated, the earlier row of the pair stays valid.
\<close>

theorem spacing_filter_keeps_earlier_row:
  "flt (fsub (Fin (100 + 1 / 1024)) (Fin 100)) (Fin (5 / 1000)) \<and>
   map timestamp (rows spacing_table) = [Fin 100, Fin (100 + 1 / 1024)] \<and>
   map is_valid
     (rows (get_data (filter_unrealistic_event_spacing
                        (FilteredData spacing_table (Some 704)) (Fin (5 / 1000)))))
     = [True, False]"
proof -
  let ?fd = "FilteredData spacing_table (Some 704)"
  have c: "''is_valid'' \<in> set (columns (get_data ?fd))"
    by (rule FilteredData_columns)
  have t: "map timestamp (rows (get_data ?fd)) = [Fin 100, Fin (100 + 1 / 1024)]"
    by (simp add: FilteredData_def get_data_def prepare_data_def add_column_def ensure_is_valid_def
          reset_calculated_fields_def Let_def spacing_table_def raw_columns_def raw_row_def)
  have v: "map is_valid (rows (get_data ?fd)) = [True, True]"
    by (simp add: FilteredData_def get_data_def prepare_data_def add_column_def ensure_is_valid_def
          reset_calculated_fields_def Let_def spacing_table_def raw_columns_def raw_row_def)
  have m: "mask_unrealistic_event_spacing (Fin (5 / 1000)) (rows (get_data ?fd)) = [False, True]"
    by (simp add: mask_unrealistic_event_spacing_def t diff_def shift_def fsub_def)
  have "map is_valid (rows (get_data (apply_pass (UnrealisticEventSpacing (Fin (5 / 1000))) ?fd)))
          = [True, False]"
    by (simp only: apply_pass_valid[OF c] pass_mask.simps m v) simp
  then show ?thesis
    by (simp add: fsub_def spacing_table_def raw_columns_def raw_row_def)
qed

text \<open>
  The checkpoint snapshot of the same pass marks both endpoints: a row is in its mask
  exactly when the difference to its predecessor or the difference of its successor to it
  is below \<open>min_interval\<close>.
\<close>

lemma diff_nth:
  "i < length xs \<Longrightarrow> diff xs ! i = (if i = 0 then NaN else fsub (xs ! i) (xs ! (i - 1)))"
  by (cases i) (simp_all add: diff_def shift_def)

lemma spacing_mask_ckpt_both_endpoints:
  assumes "i < length rs"
  shows "mask_unrealistic_event_spacing_ckpt min_interval rs ! i =
           ((0 < i \<and> flt (fsub (timestamp (rs ! i)) (timestamp (rs ! (i - 1)))) min_interval) \<or>
            (Suc i < length rs \<and>
               flt (fsub (timestamp (rs ! Suc i)) (timestamp (rs ! i))) min_interval))"
proof -
  let ?m = "map (\<lambda>d. flt d min_interval) (diff (map timestamp rs))"
  have l: "length ?m = length rs" by simp
  have a: "?m ! i = (0 < i \<and> flt (fsub (timestamp (rs ! i)) (timestamp (rs ! (i - 1)))) min_interval)"
    using assms by (simp add: diff_nth)
  have b: "(tl ?m @ [False]) ! i =
             (Suc i < length rs \<and> flt (fsub (timestamp (rs ! Suc i)) (timestamp (rs ! i))) min_interval)"
  proof (cases "Suc i < length rs")
    case True
    then have il: "i < length (tl ?m)" by simp
    have "(tl ?m @ [False]) ! i = tl ?m ! i"
      using il by (simp only: nth_append if_True)
    also have "\<dots> = ?m ! Suc i"
      using il by (simp only: nth_tl)
    finally have "(tl ?m @ [False]) ! i = ?m ! Suc i" .
    then show ?thesis using True by (simp add: diff_nth)
  next
    case False
    then have "i = length (tl ?m)" using assms by simp
    then have "(tl ?m @ [False]) ! i = False"
      by (simp only: nth_append_length)
    then show ?thesis using False by simp
  qed
  have "mask_unrealistic_event_spacing_ckpt min_interval rs ! i = (?m ! i \<or> (tl ?m @ [False]) ! i)"
    using assms by (simp add: mask_unrealistic_event_spacing_ckpt_def Let_def)
  then show ?thesis using a b by simp
qed

section \<open>Idempotence of a pass\<close>

text \<open>
  Claim C7, as amended. Each of the seven passes of \<open>raw_data_filter.py\<close> (type, range,
  completeness, timestamp bounds, spacing, constant pupil, asynchronous pupils), applied
  twice in a row with the same parameters to a constructed object or to one that was given
  a table through \<open>set_data\<close>, leaves the same rows valid as one application.
\<close>

theorem index_pass_idempotent:
  assumes "s = FilteredData df uid \<or> s = set_data fd df"
  shows "map is_valid (rows (get_data (apply_pass p (apply_pass p s))))
           = map is_valid (rows (get_data (apply_pass p s)))"
proof -
  have "''is_valid'' \<in> set (columns (get_data s))"
    using assms FilteredData_columns set_data_columns by blast
  then show ?thesis by (rule apply_pass_twice_valid)
qed

theorem index_pass_idempotent_witness:
  "map is_valid
     (rows (get_data (apply_pass OnlyGaze (apply_pass OnlyGaze (FilteredData chain_table (Some 704))))))
     = [True, False, False]"
proof -
  let ?fd = "FilteredData chain_table (Some 704)"
  have v: "map is_valid (rows (get_data ?fd)) = [True, True, False]"
    by (simp add: FilteredData_def get_data_def prepare_data_def add_column_def ensure_is_valid_def
          reset_calculated_fields_def Let_def chain_table_def raw_columns_def raw_row_def)
  have g: "map event_type (rows (get_data ?fd)) = [''gaze'', ''blink'', ''gaze'']"
    by (simp add: FilteredData_def get_data_def prepare_data_def add_column_def ensure_is_valid_def
          reset_calculated_fields_def Let_def chain_table_def raw_columns_def raw_row_def)
  have once: "map is_valid (rows (get_data (apply_pass OnlyGaze ?fd))) = [True, False, False]"
    using apply_pass_valid[OF FilteredData_columns, of OnlyGaze chain_table "Some 704"]
    by (simp add: v mask_only_gaze_def g)
  show ?thesis
    using index_pass_idempotent[of ?fd chain_table "Some 704" empty_object OnlyGaze] once
    by simp
qed

text \<open>
  Claim C7 as stated fails for the speed filter of the checkpoint snapshot. In the example
  table the first application invalidates the two middle rows (5.5 units in 0.75 s); the
  two rows that are left are then neighbours, 5.5 units in 1 s apart, and the second
  application invalidates both.
\<close>

theorem speed_filter_not_idempotent:
  "validity (filter_pupil_speed (FilteredData_ckpt speed_table (Some 704)) (Fin 5))
     = Inr [True, False, False, True] \<and>
   validity (twice (\<lambda>fd. filter_pupil_speed fd (Fin 5)) (FilteredData_ckpt speed_table (Some 704)))
     = Inr [False, False, False, False]"
proof -
  have t: "twice (\<lambda>fd. filter_pupil_speed fd (Fin 5)) (FilteredData_ckpt speed_table (Some 704))
             = Inr \<lparr>ckpt_data = \<lparr>rows = speed_rows2, columns = all_columns\<rparr>,
                    ckpt_start_timestamp = None, ckpt_user_id = Some 704\<rparr>"
    by (simp add: twice_def speed_state1 speed_state2)
  show ?thesis
    unfolding t speed_state1
    by (simp add: validity_def get_data_ckpt_def speed_rows gaze_row_ckpt_def)
qed

text \<open>
  The outlier filter is not idempotent either. After a speed pass that marks nothing, its
  first application invalidates the last two rows, whose rolling standard deviation is
  undefined; the recomputation then leaves the third row alone in its window, with an
  undefined standard deviation, and the second application invalidates it.
\<close>

lemma std_outlier_filter_not_idempotent:
  "filter_pupil_speed (FilteredData_ckpt outlier_table (Some 704)) (Fin 5)
     = Inr (outlier_state outlier_rows1) \<and>
   validity (filter_by_std_outliers (outlier_state outlier_rows1) (Fin 1) (Fin 2))
     = Inr [True, True, True, False, False] \<and>
   validity (twice (\<lambda>fd. filter_by_std_outliers fd (Fin 1) (Fin 2)) (outlier_state outlier_rows1))
     = Inr [True, True, False, False, False]"
proof -
  have t: "twice (\<lambda>fd. filter_by_std_outliers fd (Fin 1) (Fin 2)) (outlier_state outlier_rows1)
             = Inr (outlier_state outlier_rows3)"
    by (simp add: twice_def outlier_state2 outlier_state3)
  show ?thesis
    unfolding t outlier_state2 outlier_state0 outlier_state1
    by (simp add: validity_def get_data_ckpt_def outlier_state_def outlier_rows gaze_row_ckpt_def)
qed

section \<open>Fall speed when the peak is at the end of the phase\<close>

text \<open>
  Claim C6, as amended. When the phase is in the phase map, its end is a finite time and
  the peak row of the segment has that time as its relative timestamp, the fall-speed
  computation (\<open>compute_positive_fall_speed\<close> for the Positive phase,
  \<open>compute_negative_fall_speed\<close> for the Negative phase) raises nothing. The segment has
  a latest row, the denominator (phase end minus peak time) is zero, and the result is the
  quotient of (peak value minus value of the latest row) by that zero: \<open>NaN\<close> when the
  value of the latest row is undefined or equals the peak value, positive infinity
  otherwise.
\<close>

theorem fall_speed_at_phase_end:
  assumes f: "(f = compute_positive_fall_speed \<and> key = ''Positive'') \<or>
              (f = compute_negative_fall_speed \<and> key = ''Negative'')"
    and tr: "time_ranges key = Some (t0, Fin e)"
    and peak: "idxmax (map avg_pupildiameter_smooth (segment (get_data_ckpt fd) t0 (Fin e))) = Some i"
    and at_end: "relative_timestamp (segment (get_data_ckpt fd) t0 (Fin e) ! i) = Fin e"
  shows "\<exists>j. idxmax (map relative_timestamp (segment (get_data_ckpt fd) t0 (Fin e))) = Some j \<and>
             fsub (Fin e) (relative_timestamp (segment (get_data_ckpt fd) t0 (Fin e) ! i)) = Fin 0 \<and>
             f fd time_ranges bm =
               Inr (fdiv (fsub (avg_pupildiameter_smooth (segment (get_data_ckpt fd) t0 (Fin e) ! i))
                               (avg_pupildiameter_smooth (segment (get_data_ckpt fd) t0 (Fin e) ! j)))
                         (fsub (Fin e) (relative_timestamp (segment (get_data_ckpt fd) t0 (Fin e) ! i)))) \<and>
             f fd time_ranges bm =
               (if avg_pupildiameter_smooth (segment (get_data_ckpt fd) t0 (Fin e) ! j) = NaN \<or>
                   avg_pupildiameter_smooth (segment (get_data_ckpt fd) t0 (Fin e) ! j)
                     = avg_pupildiameter_smooth (segment (get_data_ckpt fd) t0 (Fin e) ! i)
                then Inr NaN else Inr PInf)"
proof -
  let ?seg = "segment (get_data_ckpt fd) t0 (Fin e)"
  let ?sm = "map avg_pupildiameter_smooth ?seg"
  have pk: "i < length ?sm \<and> ?sm ! i \<noteq> NaN \<and> (\<forall>x\<in>set ?sm. x = NaN \<or> fle x (?sm ! i))"
    by (rule idxmax_some[OF peak])
  have i: "i < length ?seg" using pk by simp
  then have ne: "?seg \<noteq> []" by auto
  have "\<not> (\<forall>x\<in>set (map relative_timestamp ?seg). x = NaN)"
    using ne segment_relative_not_nan[of _ "get_data_ckpt fd" t0 "Fin e"]
    by (cases ?seg) auto
  then obtain j where j: "idxmax (map relative_timestamp ?seg) = Some j"
    using idxmax_none[of "map relative_timestamp ?seg"] by (cases "idxmax (map relative_timestamp ?seg)") auto
  have jl: "j < length ?seg" using idxmax_some[OF j] by simp
  let ?vp = "avg_pupildiameter_smooth (?seg ! i)"
  let ?ve = "avg_pupildiameter_smooth (?seg ! j)"
  have vp: "?vp \<noteq> NaN" using pk i by simp
  have "j < length ?sm" using jl by simp
  then have "?sm ! j \<in> set ?sm" by (rule nth_mem)
  then have "?sm ! j = NaN \<or> fle (?sm ! j) (?sm ! i)" using pk by blast
  then have ve: "?ve = NaN \<or> fle ?ve ?vp" using i jl by simp
  have zero: "fsub (Fin e) (relative_timestamp (?seg ! i)) = Fin 0"
    by (simp add: at_end fsub_self_fin)
  have res: "fall_speed key label fd time_ranges bm = Inr (fdiv (fsub ?vp ?ve) (Fin 0))" for label
    by (simp add: fall_speed_def Let_def tr ne peak j at_end fsub_self_fin)
  have q: "f fd time_ranges bm = Inr (fdiv (fsub ?vp ?ve) (Fin 0))"
    using f res by (auto simp: compute_positive_fall_speed_def compute_negative_fall_speed_def)
  have c: "f fd time_ranges bm = (if ?ve = NaN \<or> ?ve = ?vp then Inr NaN else Inr PInf)"
    unfolding q using fdiv_top_by_zero[OF vp ve] by simp
  show ?thesis
    using j zero q c by (intro exI[of _ j]) (simp only: simp_thms)
qed

theorem fall_speed_at_phase_end_witness:
  "phase_ranges ''Positive'' = Some (Fin 30, Fin 60) \<and>
   idxmax (map avg_pupildiameter_smooth
     (segment (get_data_ckpt (FilteredData_ckpt phase_table (Some 704))) (Fin 30) (Fin 60))) = Some 1 \<and>
   relative_timestamp
     (segment (get_data_ckpt (FilteredData_ckpt phase_table (Some 704))) (Fin 30) (Fin 60) ! 1) = Fin 60 \<and>
   idxmax (map relative_timestamp
     (segment (get_data_ckpt (FilteredData_ckpt phase_table (Some 704))) (Fin 30) (Fin 60))) = Some 1 \<and>
   compute_positive_fall_speed (FilteredData_ckpt phase_table (Some 704)) phase_ranges (Fin 3)
     = Inr (fdiv (fsub (Fin 5) (Fin 5)) (fsub (Fin 60) (Fin 60)))"
proof -
  let ?seg = "segment (get_data_ckpt (FilteredData_ckpt phase_table (Some 704))) (Fin 30) (Fin 60)"
  have e: "relative_timestamp (?seg ! 1) = Fin 60"
    by (simp add: phase_segments gaze_row_ckpt_def)
  have v: "avg_pupildiameter_smooth (?seg ! 1) = Fin 5"
    by (simp add: phase_segments gaze_row_ckpt_def)
  obtain j where j: "idxmax (map relative_timestamp ?seg) = Some j"
    and q: "compute_positive_fall_speed (FilteredData_ckpt phase_table (Some 704)) phase_ranges (Fin 3) =
               Inr (fdiv (fsub (avg_pupildiameter_smooth (?seg ! 1)) (avg_pupildiameter_smooth (?seg ! j)))
                         (fsub (Fin 60) (relative_timestamp (?seg ! 1))))"
    using fall_speed_at_phase_end[of compute_positive_fall_speed "''Positive''" phase_ranges
            "Fin 30" 60 "FilteredData_ckpt phase_table (Some 704)" 1 "Fin 3",
            OF _ phase_ranges_keys(1) phase_peaks(1) e]
    by auto
  have j1: "j = 1" using j phase_peaks(2) by simp
  show ?thesis
    using q phase_ranges_keys(1) phase_peaks(1) phase_peaks(2) e v unfolding j1 by simp
qed

text \<open>
  Claim C6 as stated fails: in the example table the peak of the Positive phase is the row
  at relative time 60, the end of the phase, and the result is the value \<open>NaN\<close>, not an
  error.
\<close>

theorem fall_speed_no_error_at_phase_end:
  "phase_ranges ''Positive'' = Some (Fin 30, Fin 60) \<and>
   map relative_timestamp
     (segment (get_data_ckpt (FilteredData_ckpt phase_table (Some 704))) (Fin 30) (Fin 60))
     = [Fin 40, Fin 60] \<and>
   map avg_pupildiameter_smooth
     (segment (get_data_ckpt (FilteredData_ckpt phase_table (Some 704))) (Fin 30) (Fin 60))
     = [Fin 4, Fin 5] \<and>
   compute_positive_fall_speed (FilteredData_ckpt phase_table (Some 704)) phase_ranges (Fin 3) = Inr NaN"
  by (simp add: compute_positive_fall_speed_def fall_speed_def phase_ranges_keys phase_peaks Let_def)
     (simp add: phase_segments gaze_row_ckpt_def fsub_def)

section \<open>The mean ratio of the Negative phase\<close>

text \<open>
  Claim C2, evaluated at the example table with the four phases of the timing file and
  baseline mean 3: \<open>compute_negative_mean_ratio\<close> returns the mean of the Positive window
  over the baseline mean, \<open>(4 + 5) / 2 / 3\<close>, which is what \<open>compute_positive_mean_ratio\<close>
  returns; the mean of the Negative window over the baseline mean is \<open>7 / 3\<close>.
\<close>

theorem negative_mean_ratio_reads_positive:
  "load_time_ranges phase_timings ''704'' = Inr phase_ranges \<and>
   compute_negative_mean_ratio (FilteredData_ckpt phase_table (Some 704)) phase_ranges (Fin 3)
     = Inr (Fin (3 / 2)) \<and>
   compute_positive_mean_ratio (FilteredData_ckpt phase_table (Some 704)) phase_ranges (Fin 3)
     = Inr (Fin (3 / 2)) \<and>
   spec_negative_mean_ratio (FilteredData_ckpt phase_table (Some 704)) phase_ranges (Fin 3)
     = Inr (Fin (7 / 3))"
  by (simp add: phase_ranges_loaded compute_negative_mean_ratio_def compute_positive_mean_ratio_def
        spec_negative_mean_ratio_def mean_ratio_def phase_ranges_keys phase_segments Let_def
        series_mean_def nanmean_def fmean_def fsum_def gaze_row_ckpt_def)

section \<open>The rise speed of the Negative phase\<close>

text \<open>
  Claim C3, evaluated at the example table with the phase map that \<open>load_time_ranges\<close>
  builds from the timing file: the map has the phase \<open>Negative\<close> and a valid row lies in its
  window, yet \<open>compute_negative_rise_speed\<close> fails with the key error of the name
  \<open>negative\<close>; the rise speed of the claim is \<open>(7 - 3) / (100 - 90)\<close>.
\<close>

theorem negative_rise_speed_key_error:
  "load_time_ranges phase_timings ''704'' = Inr phase_ranges \<and>
   phase_ranges ''Negative'' = Some (Fin 90, Fin 120) \<and>
   segment (get_data_ckpt (FilteredData_ckpt phase_table (Some 704))) (Fin 90) (Fin 120) \<noteq> [] \<and>
   compute_negative_rise_speed (FilteredData_ckpt phase_table (Some 704)) phase_ranges (Fin 3)
     = Inl (KeyError ''negative'') \<and>
   spec_negative_rise_speed (FilteredData_ckpt phase_table (Some 704)) phase_ranges (Fin 3)
     = Inr (Fin (4 / 10))"
  by (simp add: phase_ranges_loaded compute_negative_rise_speed_def spec_negative_rise_speed_def
        rise_speed_def phase_ranges_keys phase_peaks Let_def)
     (simp add: phase_segments gaze_row_ckpt_def fsub_def)

section \<open>The rolling standard deviation after construction\<close>

text \<open>
  Claim C8, evaluated at a freshly constructed object of the checkpoint snapshot with two
  valid rows a quarter of a second apart: both rows lie in both windows, the sample standard
  deviation of their average diameters 2 and 4 is \<open>sqrt 2\<close>, and \<open>std_pupildiameter\<close> is
  \<open>NaN\<close> on both rows.
\<close>

theorem std_undefined_after_construction:
  "map is_valid (rows (get_data_ckpt (FilteredData_ckpt std_table (Some 704)))) = [True, True] \<and>
   map relative_timestamp (rows (get_data_ckpt (FilteredData_ckpt std_table (Some 704))))
     = [Fin 0, Fin (1 / 4)] \<and>
   map avg_pupildiameter (rows (get_data_ckpt (FilteredData_ckpt std_table (Some 704))))
     = [Fin 2, Fin 4] \<and>
   map std_pupildiameter (rows (get_data_ckpt (FilteredData_ckpt std_table (Some 704))))
     = [NaN, NaN] \<and>
   map (spec_std_diameter (rows (get_data_ckpt (FilteredData_ckpt std_table (Some 704)))))
     (rows (get_data_ckpt (FilteredData_ckpt std_table (Some 704))))
     = [Fin (sqrt 2), Fin (sqrt 2)]"
  by (simp add: std_data gaze_row_ckpt_def spec_std_diameter_def Let_def fsub_def
        np_std_def fmean_def fsum_def)

text \<open>
  A second recomputation of the same table reads the relative timestamps and average
  diameters that the first one left, and fills the field.
\<close>

lemma std_defined_after_second_recomputation:
  "map std_pupildiameter
     (rows (get_data_ckpt
        (set_data_ckpt (FilteredData_ckpt std_table (Some 704))
           (get_data_ckpt (FilteredData_ckpt std_table (Some 704))))))
   = [Fin (sqrt 2), Fin (sqrt 2)]"
proof -
  let ?rows0 = "[gaze_row_ckpt (Fin 100) (Fin 2) True (Fin 0) (Fin 2) NaN (Fin 3),
                 gaze_row_ckpt (Fin (100 + 1 / 4)) (Fin 4) True (Fin (1 / 4)) (Fin 4) NaN (Fin 3)]"
  let ?rows1 = "[gaze_row_ckpt (Fin 100) (Fin 2) True (Fin 0) (Fin 2) (Fin (sqrt 2)) (Fin 3),
                 gaze_row_ckpt (Fin (100 + 1 / 4)) (Fin 4) True (Fin (1 / 4)) (Fin 4) (Fin (sqrt 2)) (Fin 3)]"
  let ?s0 = "\<lparr>ckpt_data = \<lparr>rows = ?rows0, columns = all_columns\<rparr>,
             ckpt_start_timestamp = Some (Fin 100), ckpt_user_id = Some 704\<rparr>"
  have s0: "FilteredData_ckpt std_table (Some 704) = ?s0"
    by (simp add: FilteredData_ckpt_def std_table_after[unfolded new_object_ckpt_def])
  have p: "prepare_data_ckpt (?s0\<lparr>ckpt_data := \<lparr>rows = ?rows0, columns = all_columns\<rparr>\<rparr>) =
     (?s0\<lparr>ckpt_data := \<lparr>rows = ?rows0, columns = all_columns\<rparr>\<rparr>)
       \<lparr>ckpt_data := \<lparr>rows = ?rows1, columns = all_columns\<rparr>,
        ckpt_start_timestamp := Some (Fin 100)\<rparr>"
    apply (rule prepare_data_ckpt_eval)
               apply (simp add: stage_eval example_rows)+
    done
  show ?thesis
    unfolding s0 set_data_ckpt_def get_data_ckpt_def
    using p by (simp add: gaze_row_ckpt_def)
qed

section \<open>The calibration record and its serialization\<close>

text \<open>
  Claim C9, as amended. The record serializes to a flat dictionary with exactly ten keys,
  \<open>user_id\<close> and the nine scalar fields (the recovery speed under
  \<open>neutral2_recovery_speed\<close>), each key once, and loading what was saved gives the record
  back, every field unchanged.
\<close>

theorem calibration_record_roundtrip:
  "map fst (to_dict r) = ''user_id'' # nine_fields \<and>
   distinct (map fst (to_dict r)) \<and>
   load (save r) = Inr r"
  by (simp add: to_dict_def nine_fields_def save_def load_def getitem_def bind_error_def)

text \<open>
  Claim C9 as stated fails: the dictionary of a record has ten keys, and \<open>user_id\<close> is
  not one of the nine scalar fields.
\<close>

theorem to_dict_has_user_id:
  "length (to_dict example_record) = 10 \<and>
   ''user_id'' \<in> set (map fst (to_dict example_record)) \<and>
   ''user_id'' \<notin> set nine_fields \<and>
   set (map fst (to_dict example_record)) \<noteq> set nine_fields"
proof -
  have a: "''user_id'' \<in> set (map fst (to_dict example_record))"
    by (simp add: to_dict_def)
  have b: "''user_id'' \<notin> set nine_fields"
    by (simp add: nine_fields_def)
  have c: "length (to_dict example_record) = 10"
    by (simp add: to_dict_def)
  show ?thesis using a b c by blast
qed

end
